theory Spec2Isabelle
  imports Main "HOL-Library.Word"
begin

unbundle bit_operations_syntax

section \<open>Memory-mapped registers of the RA4M1\<close>

text \<open>
  The sketch names every register by a macro \<^verbatim>\<open>((volatile T *)(BASE + OFFSET + n * STEP))\<close>.
  A register is modelled by its peripheral, its channel \<open>n\<close> (the \<^verbatim>\<open>0x0n00\<close> part of the GPT
  and SPI macros, the port and pin of the PFS macros, the slot of the IELSR macros) and its
  name inside the peripheral. The pointer type \<open>T\<close> fixes the access width; it is kept in the
  access functions \<open>rd8\<close>, \<open>rd16\<close>, \<open>rd32\<close>, \<open>wr8\<close>, \<open>wr16\<close>, \<open>wr32\<close> below. The macros
  \<^verbatim>\<open>SPI0_SPDR\<close> and \<^verbatim>\<open>SPI0_SPDR_HA\<close> (and those of SPI1) name the word and the halfword
  access to one data register, and \<^verbatim>\<open>PFS_PmnnPFS_BY\<close> names the top byte of \<^verbatim>\<open>PFS_PmnnPFS\<close>;
  each has a register name of its own here.
\<close>

datatype gpt_reg =
  GTSTR | GTSTP | GTCLR | GTSSR | GTPSR | GTCSR | GTCR | GTUDDTYC | GTIOR | GTBER
  | GTCNT | GTCCRA | GTCCRB | GTCCRC | GTCCRD | GTPR | GTPBR

datatype spi_reg =
  SPCR | SSLP | SPPCR | SPSR | SPDR | SPDR_HA | SPBR | SPDCR | SPCKD | SSLND | SPND
  | SPCR2 | SPCMD0

datatype adc_reg = ADDR int | ADCSR | ADANSA0 | ADADS0 | ADCER | ADADC | ADHVREFCNT

datatype dac_reg = DADR0 | DACR | DADPR | DAADSCR | DAVREFCR

datatype reg =
  GPT int gpt_reg
  | SPI int spi_reg
  | ADC140 adc_reg
  | DAC12 dac_reg
  | PFS int int
  | PFS_BY int int
  | ICU_IELSR int
  | MSTP_MSTPCRB
  | MSTP_MSTPCRD
  | ELC_ELSR int
  | AGT_AGTCR int

abbreviation "ICU_IELSR05 \<equiv> ICU_IELSR 5"
abbreviation "ICU_IELSR06 \<equiv> ICU_IELSR 6"
abbreviation "ICU_IELSR07 \<equiv> ICU_IELSR 7"
abbreviation "ICU_IELSR08 \<equiv> ICU_IELSR 8"

abbreviation "ADC140_ADDR00 \<equiv> ADC140 (ADDR 0)"
abbreviation "ADC140_ADDR01 \<equiv> ADC140 (ADDR 1)"
abbreviation "ADC140_ADCSR \<equiv> ADC140 ADCSR"
abbreviation "ADC140_ADANSA0 \<equiv> ADC140 ADANSA0"
abbreviation "ADC140_ADADS0 \<equiv> ADC140 ADADS0"
abbreviation "ADC140_ADCER \<equiv> ADC140 ADCER"
abbreviation "ADC140_ADADC \<equiv> ADC140 ADADC"
abbreviation "ADC140_ADHVREFCNT \<equiv> ADC140 ADHVREFCNT"

abbreviation "DAC12_DADR0 \<equiv> DAC12 DADR0"
abbreviation "DAC12_DACR \<equiv> DAC12 DACR"
abbreviation "DAC12_DADPR \<equiv> DAC12 DADPR"
abbreviation "DAC12_DAADSCR \<equiv> DAC12 DAADSCR"
abbreviation "DAC12_DAVREFCR \<equiv> DAC12 DAVREFCR"
abbreviation "ELC_ELSR12 \<equiv> ELC_ELSR 12"
abbreviation "AGT0_AGTCR \<equiv> AGT_AGTCR 0"

abbreviation "PFS_P000PFS \<equiv> PFS 0 0"
abbreviation "PFS_P001PFS \<equiv> PFS 0 1"
abbreviation "PFS_P002PFS \<equiv> PFS 0 2"
abbreviation "PFS_P014PFS \<equiv> PFS 0 14"
abbreviation "PFS_P100PFS \<equiv> PFS 1 0"
abbreviation "PFS_P101PFS \<equiv> PFS 1 1"
abbreviation "PFS_P102PFS \<equiv> PFS 1 2"
abbreviation "PFS_P103PFS \<equiv> PFS 1 3"
abbreviation "PFS_P104PFS \<equiv> PFS 1 4"
abbreviation "PFS_P105PFS \<equiv> PFS 1 5"
abbreviation "PFS_P109PFS \<equiv> PFS 1 9"
abbreviation "PFS_P110PFS \<equiv> PFS 1 10"
abbreviation "PFS_P111PFS \<equiv> PFS 1 11"
abbreviation "PFS_P112PFS \<equiv> PFS 1 12"
abbreviation "PFS_P204PFS \<equiv> PFS 2 4"
abbreviation "PFS_P303PFS \<equiv> PFS 3 3"
abbreviation "PFS_P304PFS \<equiv> PFS 3 4"
abbreviation "PFS_P106PFS_BY \<equiv> PFS_BY 1 6"
abbreviation "PFS_P107PFS_BY \<equiv> PFS_BY 1 7"

abbreviation "SPI0_SPCR \<equiv> SPI 0 SPCR"
abbreviation "SPI0_SSLP \<equiv> SPI 0 SSLP"
abbreviation "SPI0_SPPCR \<equiv> SPI 0 SPPCR"
abbreviation "SPI0_SPSR \<equiv> SPI 0 SPSR"
abbreviation "SPI0_SPDR \<equiv> SPI 0 SPDR"
abbreviation "SPI0_SPDR_HA \<equiv> SPI 0 SPDR_HA"
abbreviation "SPI0_SPBR \<equiv> SPI 0 SPBR"
abbreviation "SPI0_SPDCR \<equiv> SPI 0 SPDCR"
abbreviation "SPI0_SPCKD \<equiv> SPI 0 SPCKD"
abbreviation "SPI0_SSLND \<equiv> SPI 0 SSLND"
abbreviation "SPI0_SPND \<equiv> SPI 0 SPND"
abbreviation "SPI0_SPCR2 \<equiv> SPI 0 SPCR2"
abbreviation "SPI0_SPCMD0 \<equiv> SPI 0 SPCMD0"

abbreviation "SPI1_SPCR \<equiv> SPI 1 SPCR"
abbreviation "SPI1_SSLP \<equiv> SPI 1 SSLP"
abbreviation "SPI1_SPPCR \<equiv> SPI 1 SPPCR"
abbreviation "SPI1_SPSR \<equiv> SPI 1 SPSR"
abbreviation "SPI1_SPDR \<equiv> SPI 1 SPDR"
abbreviation "SPI1_SPDR_HA \<equiv> SPI 1 SPDR_HA"
abbreviation "SPI1_SPBR \<equiv> SPI 1 SPBR"
abbreviation "SPI1_SPDCR \<equiv> SPI 1 SPDCR"
abbreviation "SPI1_SPCR2 \<equiv> SPI 1 SPCR2"
abbreviation "SPI1_SPCMD0 \<equiv> SPI 1 SPCMD0"

abbreviation "GPT321 \<equiv> GPT 1"
abbreviation "GPT163 \<equiv> GPT 3"
abbreviation "GPT164 \<equiv> GPT 4"
abbreviation "GPT167 \<equiv> GPT 7"

text \<open>Bit positions and constants of the sketch that the modelled functions use.\<close>

definition SPCR_SPEIE :: nat where "SPCR_SPEIE = 4"
definition SPCR_SPTIE :: nat where "SPCR_SPTIE = 5"
definition SPCR_SPE :: nat where "SPCR_SPE = 6"
definition SPCR_SPRIE :: nat where "SPCR_SPRIE = 7"
definition SPCR_MSTR :: nat where "SPCR_MSTR = 3"
definition SPSR_SPTEF :: nat where "SPSR_SPTEF = 5"
definition SPSR_SPRF :: nat where "SPSR_SPRF = 7"
definition SPDCR_SPLW :: nat where "SPDCR_SPLW = 5"
definition SPCMD0_SPB_0_3 :: nat where "SPCMD0_SPB_0_3 = 8"
definition MSTPB18 :: nat where "MSTPB18 = 18"
definition MSTPB19 :: nat where "MSTPB19 = 19"
definition MSTPD5 :: nat where "MSTPD5 = 5"
definition MSTPD6 :: nat where "MSTPD6 = 6"
definition MSTPD16 :: nat where "MSTPD16 = 16"
definition MSTPD20 :: nat where "MSTPD20 = 20"

definition IRQ_GPT7_OVF :: "32 word" where "IRQ_GPT7_OVF = 0x95"
definition IRQ_SPI0_SPRI :: "32 word" where "IRQ_SPI0_SPRI = 0xAD"
definition IRQ_SPI0_SPTI :: "32 word" where "IRQ_SPI0_SPTI = 0xAE"
definition IRQ_SPI0_SPEI :: "32 word" where "IRQ_SPI0_SPEI = 0xB0"
definition IRQ_SPI1_SPRI :: "32 word" where "IRQ_SPI1_SPRI = 0xB2"
definition IRQ_SPI1_SPTI :: "32 word" where "IRQ_SPI1_SPTI = 0xB3"
definition IRQ_SPI1_SPEI :: "32 word" where "IRQ_SPI1_SPEI = 0xB5"

definition SPI_BR_8M0Hz :: "8 word" where "SPI_BR_8M0Hz = 0x02"
definition SPI_BITS_32 :: "8 word" where "SPI_BITS_32 = 2"
definition SPI_MASTER :: bool where "SPI_MASTER = True"
definition SPI_SLAVE :: bool where "SPI_SLAVE = False"
definition SPI_IRQEN :: bool where "SPI_IRQEN = True"
definition SPI_POLL :: bool where "SPI_POLL = False"

definition LOOP_COUNT_VAL :: "16 word" where "LOOP_COUNT_VAL = 24000"

section \<open>Program state\<close>

text \<open>
  The interrupt routines installed by \<^verbatim>\<open>attachInterrupt\<close>, by name.
\<close>

datatype handler =
  Timer7Interrupt | AdcCompleteInterrupt | SpiErrorInterrupt | SpiReceiveInterrupt
  | SpiTransmitInterrupt

text \<open>
  A bus access: the register and the value read or written, zero-extended to 32 bits.
\<close>

datatype event = Rd reg "32 word" | Wr reg "32 word"

text \<open>
  The file-scope variables of the sketch. \<^verbatim>\<open>SPI_DATA_WIDE\<close> is defined, so the four SPI
  values are \<^verbatim>\<open>uint32_t\<close>; \<^verbatim>\<open>unsigned long\<close> is 32 bits on the Cortex-M4. The two
  \<^verbatim>\<open>double\<close> variables \<^verbatim>\<open>refclk\<close> and \<^verbatim>\<open>dfreq0\<close> are used by \<^verbatim>\<open>loop()\<close> only and are
  left out.
\<close>

record globals =
  adc_val_A0 :: "16 word"
  adc_val_A1 :: "16 word"
  adc_val_A2 :: "16 word"
  loop_counter :: "16 word"
  loopFlag :: bool
  actionFlag :: bool
  sineFlag :: bool
  phaccu0 :: "32 word"
  tword_m0 :: "32 word"
  icount0 :: "16 word"
  directionFlag :: bool
  spi1_received_val :: "32 word"
  spi1_transmit_val :: "32 word"
  spi0_received_val :: "32 word"
  spi0_transmit_val :: "32 word"

text \<open>The \<^verbatim>\<open>static\<close> locals of \<^verbatim>\<open>timer7interrupt\<close>.\<close>

record statics =
  localValA1 :: "16 word"
  localValA2 :: "16 word"
  localCount :: "16 word"
  test :: "8 word"

text \<open>
  The machine: the globals, the statics, the register file, the handlers attached to the
  board pins and the bus accesses made so far (oldest first).
\<close>

record machine =
  vars :: globals
  statics :: statics
  regs :: "reg \<Rightarrow> 32 word"
  attached :: "nat \<Rightarrow> handler option"
  trace :: "event list"

text \<open>
  The registers are \<^verbatim>\<open>volatile\<close>: a read may return what the peripheral presents rather than
  what the program wrote last (a status flag, a receive buffer, a conversion result). The
  hardware is a parameter: at the \<open>t\<close>-th bus access it either drives register \<open>r\<close> with a
  value (\<open>Some v\<close>) or leaves the stored value to be read back (\<open>None\<close>).
\<close>

type_synonym hardware = "nat \<Rightarrow> reg \<Rightarrow> 32 word option"

definition bus_read :: "hardware \<Rightarrow> nat \<Rightarrow> reg \<Rightarrow> 32 word \<Rightarrow> 32 word" where
  "bus_read hw t r stored = (case hw t r of Some v \<Rightarrow> v | None \<Rightarrow> stored)"

definition rd32 :: "hardware \<Rightarrow> reg \<Rightarrow> machine \<Rightarrow> 32 word \<times> machine" where
  "rd32 hw r s =
     (let v = bus_read hw (length (trace s)) r (regs s r)
      in (v, s\<lparr>trace := trace s @ [Rd r v]\<rparr>))"

definition rd16 :: "hardware \<Rightarrow> reg \<Rightarrow> machine \<Rightarrow> 16 word \<times> machine" where
  "rd16 hw r s =
     (let v = ucast (bus_read hw (length (trace s)) r (regs s r)) :: 16 word
      in (v, s\<lparr>trace := trace s @ [Rd r (ucast v)]\<rparr>))"

definition rd8 :: "hardware \<Rightarrow> reg \<Rightarrow> machine \<Rightarrow> 8 word \<times> machine" where
  "rd8 hw r s =
     (let v = ucast (bus_read hw (length (trace s)) r (regs s r)) :: 8 word
      in (v, s\<lparr>trace := trace s @ [Rd r (ucast v)]\<rparr>))"

definition wr32 :: "reg \<Rightarrow> 32 word \<Rightarrow> machine \<Rightarrow> machine" where
  "wr32 r v s = s\<lparr>regs := (regs s)(r := v), trace := trace s @ [Wr r v]\<rparr>"

definition wr16 :: "reg \<Rightarrow> 16 word \<Rightarrow> machine \<Rightarrow> machine" where
  "wr16 r v s = wr32 r (ucast v) s"

definition wr8 :: "reg \<Rightarrow> 8 word \<Rightarrow> machine \<Rightarrow> machine" where
  "wr8 r v s = wr32 r (ucast v) s"

text \<open>The compound assignments \<^verbatim>\<open>*R |= m\<close> and \<^verbatim>\<open>*R &= m\<close>: one read, then one write.\<close>

definition or32 :: "hardware \<Rightarrow> reg \<Rightarrow> 32 word \<Rightarrow> machine \<Rightarrow> machine" where
  "or32 hw r m s = (case rd32 hw r s of (v, s1) \<Rightarrow> wr32 r (v OR m) s1)"

definition or16 :: "hardware \<Rightarrow> reg \<Rightarrow> 16 word \<Rightarrow> machine \<Rightarrow> machine" where
  "or16 hw r m s = (case rd16 hw r s of (v, s1) \<Rightarrow> wr16 r (v OR m) s1)"

definition or8 :: "hardware \<Rightarrow> reg \<Rightarrow> 8 word \<Rightarrow> machine \<Rightarrow> machine" where
  "or8 hw r m s = (case rd8 hw r s of (v, s1) \<Rightarrow> wr8 r (v OR m) s1)"

definition and32 :: "hardware \<Rightarrow> reg \<Rightarrow> 32 word \<Rightarrow> machine \<Rightarrow> machine" where
  "and32 hw r m s = (case rd32 hw r s of (v, s1) \<Rightarrow> wr32 r (v AND m) s1)"

definition and8 :: "hardware \<Rightarrow> reg \<Rightarrow> 8 word \<Rightarrow> machine \<Rightarrow> machine" where
  "and8 hw r m s = (case rd8 hw r s of (v, s1) \<Rightarrow> wr8 r (v AND m) s1)"

section \<open>The timer interrupt\<close>

text \<open>
  \<^verbatim>\<open>timer7interrupt\<close> is straight-line code in the sections its comments mark: ADC, SPI, DAC,
  GPT PWM, and the loop counter at the end. Each section is a definition, made of one
  definition per statement group, in source order.
\<close>

subsection \<open>ADC\<close>

definition timer7_adc :: "hardware \<Rightarrow> machine \<Rightarrow> machine" where
  "timer7_adc hw s0 =
     (let s1 = wr8 PFS_P107PFS_BY 0x05 s0;
          (a1, s2) = rd16 hw ADC140_ADDR00 s1;
          s3 = s2\<lparr>vars := (vars s2)\<lparr>adc_val_A1 := a1\<rparr>\<rparr>;
          (a2, s4) = rd16 hw ADC140_ADDR01 s3;
          s5 = s4\<lparr>vars := (vars s4)\<lparr>adc_val_A2 := a2\<rparr>\<rparr>;
          s6 = or16 hw ADC140_ADCSR (push_bit 15 1) s5
      in wr8 PFS_P107PFS_BY 0x04 s6)"

subsection \<open>SPI0, the slave\<close>

definition spi0_flags :: "hardware \<Rightarrow> machine \<Rightarrow> machine" where
  "spi0_flags hw s0 =
     (let s1 = wr8 PFS_P106PFS_BY 0x05 s0;
          s2 = and8 hw SPI0_SPSR 0xE2 s1
      in or8 hw SPI0_SPSR (push_bit SPSR_SPTEF 1) s2)"

definition spi0_receive :: "hardware \<Rightarrow> machine \<Rightarrow> machine" where
  "spi0_receive hw s0 =
     (let (f, s1) = rd8 hw SPI0_SPSR s0;
          s2 = s1\<lparr>statics := (statics s1)\<lparr>test := f AND 0x80\<rparr>\<rparr>
      in if test (statics s2) = 0x80
         then (let (d, s3) = rd32 hw SPI0_SPDR s2
               in s3\<lparr>vars := (vars s3)\<lparr>spi0_received_val := d\<rparr>\<rparr>)
         else (let s3 = wr8 PFS_P106PFS_BY 0x05 s2
               in wr8 PFS_P106PFS_BY 0x04 s3))"

definition spi0_transmit :: "hardware \<Rightarrow> machine \<Rightarrow> machine" where
  "spi0_transmit hw s0 =
     (let (f, s1) = rd8 hw SPI0_SPSR s0;
          s2 = s1\<lparr>statics := (statics s1)\<lparr>test := f AND 0x20\<rparr>\<rparr>
      in if test (statics s2) = 0x20
         then wr32 SPI0_SPDR (ucast (adc_val_A1 (vars s2))) s2
         else (let s3 = wr8 PFS_P106PFS_BY 0x05 s2
               in wr8 PFS_P106PFS_BY 0x04 s3))"

definition spi0_fault :: "hardware \<Rightarrow> machine \<Rightarrow> machine" where
  "spi0_fault hw s0 =
     (let (f, s1) = rd8 hw SPI0_SPSR s0;
          s2 = s1\<lparr>statics := (statics s1)\<lparr>test := f AND 0x04\<rparr>\<rparr>
      in if test (statics s2) = 0x04
         then (let s3 = wr8 PFS_P106PFS_BY 0x05 s2;
                   s4 = and8 hw SPI0_SPSR 0xFB s3
               in wr8 PFS_P106PFS_BY 0x04 s4)
         else s2)"

definition timer7_spi0 :: "hardware \<Rightarrow> machine \<Rightarrow> machine" where
  "timer7_spi0 hw s =
     spi0_fault hw (spi0_transmit hw (spi0_receive hw (spi0_flags hw s)))"

subsection \<open>SPI1, the master\<close>

definition spi1_send :: "hardware \<Rightarrow> machine \<Rightarrow> machine" where
  "spi1_send hw s0 =
     (let s1 = and8 hw SPI1_SPSR 0xE2 s0;
          s2 = or8 hw SPI1_SPSR (push_bit SPSR_SPTEF 1) s1;
          s3 = and32 hw ICU_IELSR07 (NOT 0x00010000) s2;
          (local_val, s4) = rd32 hw SPI1_SPDR s3;
          s5 = wr32 SPI1_SPDR (ucast (localCount (statics s4))) s4
      in s5\<lparr>statics := (statics s5)\<lparr>localCount := localCount (statics s5) + 1\<rparr>\<rparr>)"

text \<open>
  The receive poll \<^verbatim>\<open>for(test = 0; test < 16; test++)\<close>: the argument \<open>i\<close> is the value
  \<^verbatim>\<open>test\<close> has at the loop test. On \<^verbatim>\<open>break\<close> the counter is not incremented.
\<close>

function spi1_poll :: "hardware \<Rightarrow> 8 word \<Rightarrow> machine \<Rightarrow> machine" where
  "spi1_poll hw i s0 =
     (let s1 = s0\<lparr>statics := (statics s0)\<lparr>test := i\<rparr>\<rparr>
      in if i < 16
         then (let (f, s2) = rd8 hw SPI1_SPSR s1
               in if f AND push_bit SPSR_SPRF 1 = push_bit SPSR_SPRF 1
                  then (let s3 = wr8 PFS_P107PFS_BY 0x05 s2;
                            (d, s4) = rd32 hw SPI1_SPDR s3;
                            s5 = s4\<lparr>vars := (vars s4)\<lparr>spi1_received_val := d\<rparr>\<rparr>
                        in wr8 PFS_P107PFS_BY 0x04 s5)
                  else spi1_poll hw (i + 1) s2)
         else s1)"
  by pat_completeness auto
termination
proof (relation "measure (\<lambda>(hw, i, s). 16 - unat i)")
  show "wf (measure (\<lambda>(hw, i, s). 16 - unat i))"
    by simp
next
  fix hw :: hardware and i :: "8 word" and s0 s1 s2 :: machine and f :: "8 word"
    and x :: "8 word \<times> machine"
  assume "i < 16"
  then have small: "unat i < 16"
    by (simp add: word_less_nat_alt)
  then have "unat (i + 1) = unat i + 1"
    by (simp add: unat_word_ariths)
  with small show "((hw, i + 1, s2), (hw, i, s0)) \<in> measure (\<lambda>(hw, i, s). 16 - unat i)"
    by simp
qed

declare spi1_poll.simps [simp del]

definition timer7_spi1 :: "hardware \<Rightarrow> machine \<Rightarrow> machine" where
  "timer7_spi1 hw s0 =
     (let s1 = spi1_send hw s0;
          s2 = spi1_poll hw 0 s1;
          s3 = wr8 PFS_P106PFS_BY 0x04 s2
      in wr8 PFS_P107PFS_BY 0x04 s3)"

subsection \<open>DAC\<close>

definition timer7_dac :: "machine \<Rightarrow> machine" where
  "timer7_dac s0 =
     (if sineFlag (vars s0)
      then (let s1 = s0\<lparr>vars := (vars s0)\<lparr>phaccu0 := phaccu0 (vars s0) + tword_m0 (vars s0)\<rparr>\<rparr>;
                s2 = s1\<lparr>vars := (vars s1)\<lparr>icount0 := ucast (drop_bit 20 (phaccu0 (vars s1)))\<rparr>\<rparr>
            in wr16 DAC12_DADR0 (icount0 (vars s2)) s2)
      else wr16 DAC12_DADR0 (drop_bit 2 (adc_val_A1 (vars s0))) s0)"

subsection \<open>GPT PWM\<close>

definition pwm_clamp_A1 :: "machine \<Rightarrow> machine" where
  "pwm_clamp_A1 s0 =
     (let s1 = s0\<lparr>statics := (statics s0)\<lparr>localValA1 := drop_bit 4 (adc_val_A1 (vars s0))\<rparr>\<rparr>
      in if localValA1 (statics s1) = 0
         then s1\<lparr>statics := (statics s1)\<lparr>localValA1 := 1\<rparr>\<rparr>
         else if localValA1 (statics s1) \<ge> 0x3FF
         then s1\<lparr>statics := (statics s1)\<lparr>localValA1 := 0x3FE\<rparr>\<rparr>
         else s1)"

definition pwm_clamp_A2 :: "machine \<Rightarrow> machine" where
  "pwm_clamp_A2 s0 =
     (let s1 = s0\<lparr>statics := (statics s0)\<lparr>localValA2 := drop_bit 4 (adc_val_A2 (vars s0))\<rparr>\<rparr>
      in if localValA2 (statics s1) = 0
         then s1\<lparr>statics := (statics s1)\<lparr>localValA2 := 1\<rparr>\<rparr>
         else if localValA2 (statics s1) \<ge> 0x3FF
         then s1\<lparr>statics := (statics s1)\<lparr>localValA2 := 0x3FE\<rparr>\<rparr>
         else s1)"

definition pwm_duty :: "machine \<Rightarrow> machine" where
  "pwm_duty s0 =
     (let s1 = wr32 (GPT321 GTCCRC) (ucast (drop_bit 2 (icount0 (vars s0)))) s0
      in wr32 (GPT321 GTCCRD) (ucast (localValA1 (statics s1))) s1)"

definition pwm_direction :: "machine \<Rightarrow> machine" where
  "pwm_direction s0 =
     (if directionFlag (vars s0)
      then (let s1 = wr32 (GPT167 GTCCRC) 0x000 s0;
                s2 = wr32 (GPT167 GTCCRD) 0x7FD s1
            in s2\<lparr>vars := (vars s2)\<lparr>directionFlag := False\<rparr>\<rparr>)
      else (let s1 = wr32 (GPT167 GTCCRC) 0x7FD s0;
                s2 = wr32 (GPT167 GTCCRD) 0x000 s1
            in s2\<lparr>vars := (vars s2)\<lparr>directionFlag := True\<rparr>\<rparr>))"

definition timer7_pwm :: "machine \<Rightarrow> machine" where
  "timer7_pwm s = pwm_direction (pwm_duty (pwm_clamp_A2 (pwm_clamp_A1 s)))"

subsection \<open>Loop counter\<close>

definition timer7_count :: "machine \<Rightarrow> machine" where
  "timer7_count s0 =
     (let s1 = wr8 PFS_P107PFS_BY 0x05 s0;
          s2 = s1\<lparr>vars := (vars s1)\<lparr>loop_counter := loop_counter (vars s1) + 1\<rparr>\<rparr>;
          s3 = (if loop_counter (vars s2) \<ge> LOOP_COUNT_VAL
                then s2\<lparr>vars := (vars s2)\<lparr>loop_counter := 0, loopFlag := True\<rparr>\<rparr>
                else s2)
      in wr8 PFS_P107PFS_BY 0x04 s3)"

subsection \<open>The handler\<close>

definition timer7interrupt :: "hardware \<Rightarrow> machine \<Rightarrow> machine" where
  "timer7interrupt hw s =
     timer7_count (timer7_pwm (timer7_dac (timer7_spi1 hw (timer7_spi0 hw (timer7_adc hw s)))))"

text \<open>Interrupts served one after the other, each with the hardware it meets.\<close>

fun timer7_run :: "hardware list \<Rightarrow> machine \<Rightarrow> machine" where
  "timer7_run [] s = s"
| "timer7_run (hw # hws) s = timer7_run hws (timer7interrupt hw s)"

section \<open>The placeholder interrupt handlers\<close>





section \<open>Peripheral setup\<close>

subsection \<open>SPI\<close>

text \<open>
  \<^verbatim>\<open>setup_spi0\<close> and \<^verbatim>\<open>setup_spi1\<close> return the value read back from the control register.
  \<^verbatim>\<open>numBits << SPCMD0_SPB_0_3\<close> is computed in \<^verbatim>\<open>int\<close> and stored into a 16-bit register.
\<close>

definition setup_spi0 ::
  "hardware \<Rightarrow> bool \<Rightarrow> 8 word \<Rightarrow> 8 word \<Rightarrow> bool \<Rightarrow> machine \<Rightarrow> 8 word \<times> machine" where
  "setup_spi0 hw MSmode bitRate numBits IRQmode s0 =
     (let s1 = and32 hw MSTP_MSTPCRB (0xFFFFFFFF - push_bit MSTPB19 1) s0;
          s2 = wr8 SPI0_SPCR 0x00 s1;
          s3 = wr8 SPI0_SSLP 0x00 s2;
          s4 = (if MSmode
                then (let t1 = wr8 SPI0_SPBR bitRate s3;
                          t2 = wr8 SPI0_SPPCR 0x30 t1;
                          t3 = wr8 SPI0_SPCR2 0x10 t2
                      in wr16 SPI0_SPCMD0 0xE001 t3)
                else (let t1 = wr8 SPI0_SPBR 0x00 s3;
                          t2 = wr16 SPI0_SPCMD0 0x0001 t1;
                          t3 = wr8 SPI0_SPCKD 0x00 t2;
                          t4 = wr8 SPI0_SSLND 0x00 t3;
                          t5 = wr8 SPI0_SPND 0x00 t4
                      in wr8 SPI0_SPCR2 0x00 t5));
          s5 = (if numBits \<ge> 4
                then (let t1 = wr8 SPI0_SPDCR 0x00 s4
                      in wr16 SPI0_SPDR_HA 0xAAAA t1)
                else (let t1 = or8 hw SPI0_SPDCR (push_bit SPDCR_SPLW 0x01) s4
                      in wr32 SPI0_SPDR 0x55555555 t1));
          s6 = or16 hw SPI0_SPCMD0 (push_bit SPCMD0_SPB_0_3 (ucast numBits)) s5;
          s7 = wr32 PFS_P103PFS (push_bit 24 6) s6;
          s8 = or32 hw PFS_P103PFS (push_bit 16 0x1) s7;
          s9 = wr32 PFS_P102PFS (push_bit 24 6) s8;
          s10 = or32 hw PFS_P102PFS (push_bit 16 0x1) s9;
          s11 = wr32 PFS_P101PFS (push_bit 24 6) s10;
          s12 = or32 hw PFS_P101PFS (push_bit 16 0x1) s11;
          s13 = wr32 PFS_P100PFS (push_bit 24 6) s12;
          s14 = or32 hw PFS_P100PFS (push_bit 16 0x1) s13;
          s15 = or32 hw PFS_P100PFS (push_bit 4 0x1) s14;
          s16 = (if IRQmode
                 then (let t1 = wr32 ICU_IELSR06 IRQ_SPI0_SPEI s15;
                           t2 = wr32 ICU_IELSR07 IRQ_SPI0_SPRI t1;
                           t3 = wr32 ICU_IELSR08 IRQ_SPI0_SPTI t2;
                           t4 = or8 hw SPI0_SPCR (push_bit SPCR_SPTIE 0x1) t3;
                           t5 = or8 hw SPI0_SPCR (push_bit SPCR_SPRIE 0x1) t4
                       in or8 hw SPI0_SPCR (push_bit SPCR_SPEIE 0x1) t5)
                 else s15);
          s17 = (if MSmode
                 then or8 hw SPI0_SPCR 0x48 s16
                 else or8 hw SPI0_SPCR 0x40 s16)
      in rd8 hw SPI0_SPCR s17)"

definition setup_spi1 ::
  "hardware \<Rightarrow> bool \<Rightarrow> 8 word \<Rightarrow> 8 word \<Rightarrow> bool \<Rightarrow> machine \<Rightarrow> 8 word \<times> machine" where
  "setup_spi1 hw MSmode bitRate numBits IRQmode s0 =
     (let s1 = and32 hw MSTP_MSTPCRB (0xFFFFFFFF - push_bit MSTPB18 1) s0;
          s2 = wr8 SPI1_SPCR 0x00 s1;
          s3 = wr8 SPI1_SSLP 0x00 s2;
          s4 = (if MSmode
                then (let t1 = wr8 SPI1_SPBR bitRate s3;
                          t2 = wr8 SPI1_SPPCR 0x30 t1;
                          t3 = wr8 SPI1_SPCR2 0x10 t2
                      in wr16 SPI1_SPCMD0 0xE001 t3)
                else wr16 SPI1_SPCMD0 0x0001 s3);
          s5 = (if numBits \<ge> 4
                then (let t1 = wr8 SPI1_SPDCR 0x00 s4
                      in wr16 SPI1_SPDR_HA 0xAAAA t1)
                else (let t1 = or8 hw SPI1_SPDCR (push_bit SPDCR_SPLW 0x01) s4
                      in wr32 SPI1_SPDR 0x55555555 t1));
          s6 = or16 hw SPI1_SPCMD0 (push_bit SPCMD0_SPB_0_3 (ucast numBits)) s5;
          s7 = wr32 PFS_P112PFS (push_bit 24 6) s6;
          s8 = or32 hw PFS_P112PFS (push_bit 16 0x1) s7;
          s9 = wr32 PFS_P111PFS (push_bit 24 6) s8;
          s10 = or32 hw PFS_P111PFS (push_bit 16 0x1) s9;
          s11 = wr32 PFS_P110PFS (push_bit 24 6) s10;
          s12 = or32 hw PFS_P110PFS (push_bit 16 0x1) s11;
          s13 = wr32 PFS_P109PFS (push_bit 24 6) s12;
          s14 = or32 hw PFS_P109PFS (push_bit 16 0x1) s13;
          s15 = (if IRQmode
                 then (let t1 = wr32 ICU_IELSR06 IRQ_SPI1_SPEI s14;
                           t2 = wr32 ICU_IELSR07 IRQ_SPI1_SPRI t1;
                           t3 = wr32 ICU_IELSR08 IRQ_SPI1_SPTI t2;
                           t4 = or8 hw SPI1_SPCR (push_bit SPCR_SPTIE 0x1) t3;
                           t5 = or8 hw SPI1_SPCR (push_bit SPCR_SPRIE 0x1) t4
                       in or8 hw SPI1_SPCR (push_bit SPCR_SPEIE 0x1) t5)
                 else s14);
          s16 = (if MSmode
                 then or8 hw SPI1_SPCR 0x48 s15
                 else or8 hw SPI1_SPCR 0x40 s15)
      in rd8 hw SPI1_SPCR s16)"

subsection \<open>ADC and DAC\<close>

definition setup_adc :: "hardware \<Rightarrow> machine \<Rightarrow> machine" where
  "setup_adc hw s0 =
     (let s1 = and32 hw MSTP_MSTPCRD (0xFFFFFFFF - push_bit MSTPD16 1) s0;
          s2 = wr8 ADC140_ADHVREFCNT 0x01 s1;
          s3 = wr16 ADC140_ADCER 0x06 s2;
          s4 = or16 hw ADC140_ADCSR (push_bit 6 0x01) s3;
          s5 = or16 hw ADC140_ADANSA0 (push_bit 1 0x01) s4;
          s6 = or16 hw ADC140_ADANSA0 (push_bit 0 0x01) s5;
          s7 = wr8 ADC140_ADADC 0x83 s6;
          s8 = or16 hw ADC140_ADADS0 (push_bit 1 0x01) s7
      in or16 hw ADC140_ADADS0 (push_bit 0 0x01) s8)"

text \<open>
  \<^verbatim>\<open>delayMicroseconds\<close> is a function of the Arduino core: a busy wait, which makes no
  access to the registers of this model.
\<close>

definition delayMicroseconds :: "nat \<Rightarrow> machine \<Rightarrow> machine" where
  "delayMicroseconds us s = s"

definition setup_dac :: "hardware \<Rightarrow> machine \<Rightarrow> machine" where
  "setup_dac hw s0 =
     (let s1 = and32 hw MSTP_MSTPCRD (0xFFFFFFFF - push_bit MSTPD20 1) s0;
          s2 = wr8 DAC12_DADPR 0x00 s1;
          s3 = wr16 ELC_ELSR12 0x0000 s2;
          s4 = wr8 DAC12_DAADSCR 0x80 s3;
          s5 = wr8 DAC12_DAVREFCR 0x00 s4;
          s6 = wr16 DAC12_DADR0 0x0000 s5;
          s7 = delayMicroseconds 10 s6;
          s8 = wr8 DAC12_DAVREFCR 0x01 s7;
          s9 = wr8 DAC12_DACR 0x5F s8;
          s10 = delayMicroseconds 5 s9;
          s11 = wr16 DAC12_DADR0 0x0800 s10;
          s12 = wr32 PFS_P014PFS 0x00000000 s11
      in or32 hw PFS_P014PFS (push_bit 15 0x1) s12)"

subsection \<open>Timers\<close>

definition setup_timer7 :: "hardware \<Rightarrow> machine \<Rightarrow> machine" where
  "setup_timer7 hw s0 =
     (let s1 = wr32 (GPT167 GTSSR) 0x80000000 s0;
          s2 = wr32 (GPT167 GTPSR) 0x80000000 s1;
          s3 = wr32 (GPT167 GTCSR) 0x80000000 s2;
          s4 = wr32 (GPT167 GTUDDTYC) 0x1 s3;
          s5 = wr32 (GPT167 GTCNT) 0x07F6 s4;
          s6 = wr32 (GPT167 GTCCRA) 0x0000 s5;
          s7 = wr32 (GPT167 GTCCRB) 0x0000 s6;
          s8 = wr32 (GPT167 GTCCRC) 0x0000 s7;
          s9 = wr32 (GPT167 GTCCRD) 0x0000 s8;
          s10 = wr32 (GPT167 GTPR) 0x7FD s9;
          s11 = wr32 (GPT167 GTPBR) 0x7FD s10;
          s12 = wr32 (GPT167 GTBER) 0x00150000 s11;
          s13 = wr32 (GPT167 GTCR) 0x0 s12;
          s14 = wr32 (GPT167 GTIOR) 0x00000000 s13;
          s15 = or32 hw (GPT167 GTIOR) 9 s14;
          s16 = or32 hw (GPT167 GTIOR) (push_bit 16 9) s15;
          s17 = or32 hw (GPT167 GTIOR) 0x01000100 s16;
          s18 = wr32 PFS_P304PFS (push_bit 24 3) s17;
          s19 = or32 hw PFS_P304PFS (push_bit 16 0x1) s18;
          s20 = wr32 PFS_P303PFS (push_bit 24 3) s19
      in or32 hw PFS_P303PFS (push_bit 16 0x1) s20)"

definition setup_timer1 :: "hardware \<Rightarrow> machine \<Rightarrow> machine" where
  "setup_timer1 hw s0 =
     (let s1 = and32 hw MSTP_MSTPCRD (0xFFFFFFFF - push_bit MSTPD5 1) s0;
          s2 = wr32 (GPT321 GTSSR) 0x80000000 s1;
          s3 = wr32 (GPT321 GTPSR) 0x80000000 s2;
          s4 = wr32 (GPT321 GTCSR) 0x80000000 s3;
          s5 = wr32 (GPT321 GTUDDTYC) 0x0 s4;
          s6 = wr32 (GPT321 GTCNT) 0x03FF s5;
          s7 = wr32 (GPT321 GTCCRA) 0x0000 s6;
          s8 = wr32 (GPT321 GTCCRB) 0x0000 s7;
          s9 = wr32 (GPT321 GTCCRC) 0x0000 s8;
          s10 = wr32 (GPT321 GTCCRD) 0x0000 s9;
          s11 = wr32 (GPT321 GTPR) 0x3FF s10;
          s12 = wr32 (GPT321 GTPBR) 0x3FF s11;
          s13 = wr32 (GPT321 GTBER) 0x00150000 s12;
          s14 = wr32 (GPT321 GTIOR) 0x00000000 s13;
          s15 = or32 hw (GPT321 GTIOR) 27 s14;
          s16 = or32 hw (GPT321 GTIOR) (push_bit 16 27) s15;
          s17 = or32 hw (GPT321 GTIOR) 0x01000100 s16;
          s18 = wr32 (GPT321 GTCR) 0x0 s17;
          s19 = or32 hw (GPT321 GTCR) (push_bit 16 0x4) s18;
          s20 = wr32 PFS_P104PFS (push_bit 24 3) s19;
          s21 = or32 hw PFS_P104PFS (push_bit 16 0x1) s20;
          s22 = wr32 PFS_P105PFS (push_bit 24 3) s21
      in or32 hw PFS_P105PFS (push_bit 16 0x1) s22)"

definition setup_timer4 :: "hardware \<Rightarrow> machine \<Rightarrow> machine" where
  "setup_timer4 hw s0 =
     (let s1 = wr32 (GPT164 GTSSR) 0x80000000 s0;
          s2 = wr32 (GPT164 GTPSR) 0x80000000 s1;
          s3 = wr32 (GPT164 GTCSR) 0x80000000 s2;
          s4 = wr32 (GPT164 GTUDDTYC) 0x1 s3;
          s5 = wr32 (GPT164 GTCNT) 0x000 s4;
          s6 = wr32 (GPT164 GTCCRB) 0x1FF s5;
          s7 = wr32 (GPT164 GTCCRD) 0x1FF s6;
          s8 = wr32 (GPT164 GTPR) 0x7FD s7;
          s9 = wr32 (GPT164 GTPBR) 0x7FD s8;
          s10 = wr32 (GPT164 GTIOR) 0x00090000 s9;
          s11 = or32 hw (GPT164 GTIOR) 0x01000000 s10;
          s12 = wr32 (GPT164 GTCR) 0x0 s11;
          s13 = wr32 PFS_P204PFS (push_bit 24 3) s12
      in or32 hw PFS_P204PFS (push_bit 16 0x1) s13)"

definition start_timers :: "hardware \<Rightarrow> machine \<Rightarrow> machine" where
  "start_timers hw s0 =
     (let s1 = wr32 (GPT164 GTSTR) 0x10010010 s0;
          s2 = or32 hw (GPT167 GTCR) 0x1 s1;
          s3 = or32 hw (GPT321 GTCR) 0x1 s2;
          s4 = or32 hw (GPT164 GTCR) 0x1 s3
      in wr32 (GPT164 GTCLR) 0x10010010 s4)"

text \<open>
  \<^verbatim>\<open>setup_timers\<close>: the module and stop writes, then the blocks the source heads
  ``Timer 7'', ``Timer 1'', ``Timer 4'' and ``All timers''. The ``Timer 3'' block is
  commented out in the source.
\<close>

definition setup_timers :: "hardware \<Rightarrow> machine \<Rightarrow> machine" where
  "setup_timers hw s0 =
     (let s1 = and32 hw MSTP_MSTPCRD (0xFFFFFFFF - push_bit MSTPD6 1) s0;
          s2 = wr32 (GPT163 GTSTP) 0x10010010 s1;
          s3 = setup_timer7 hw s2;
          s4 = setup_timer1 hw s3;
          s5 = setup_timer4 hw s4
      in start_timers hw s5)"

subsection \<open>\<^verbatim>\<open>setup()\<close>\<close>

text \<open>
  \<^verbatim>\<open>attachInterrupt\<close>, \<^verbatim>\<open>Serial.begin\<close> and the test \<^verbatim>\<open>!Serial\<close> belong to the Arduino core,
  not to the sketch. \<^verbatim>\<open>attachInterrupt(pin, f, mode)\<close> is modelled by its documented effect,
  recording \<open>f\<close> as the handler of \<open>pin\<close>; \<^verbatim>\<open>Serial.begin\<close> has no effect on the state of this
  model. The USB host is a parameter: \<open>ready n\<close> tells whether \<^verbatim>\<open>Serial\<close> is true at the
  \<open>n\<close>-th test of \<^verbatim>\<open>while (!Serial){}\<close>. The loop may never end; then \<^verbatim>\<open>setup()\<close> does not
  return, which is the value \<open>None\<close>. The function is named \<open>setup_sketch\<close> here, its
  source name being a keyword of the prover.
\<close>

definition attachInterrupt :: "nat \<Rightarrow> handler \<Rightarrow> machine \<Rightarrow> machine" where
  "attachInterrupt pin h s = s\<lparr>attached := (attached s)(pin \<mapsto> h)\<rparr>"

partial_function (option) wait_serial :: "(nat \<Rightarrow> bool) \<Rightarrow> nat \<Rightarrow> nat option" where
  "wait_serial ready n = (if ready n then Some n else wait_serial ready (Suc n))"

definition setup_interrupts :: "machine \<Rightarrow> machine" where
  "setup_interrupts s0 =
     (let s1 = attachInterrupt 13 Timer7Interrupt s0;
          s2 = wr32 ICU_IELSR05 IRQ_GPT7_OVF s1;
          s3 = wr32 PFS_P111PFS 0x00000000 s2;
          s4 = attachInterrupt 15 SpiErrorInterrupt s3;
          s5 = wr32 PFS_P000PFS 0x00000000 s4;
          s6 = wr32 ICU_IELSR06 IRQ_SPI0_SPEI s5;
          s7 = attachInterrupt 16 SpiReceiveInterrupt s6;
          s8 = wr32 PFS_P001PFS 0x00000000 s7;
          s9 = wr32 ICU_IELSR07 IRQ_SPI0_SPRI s8;
          s10 = attachInterrupt 17 SpiTransmitInterrupt s9;
          s11 = wr32 PFS_P002PFS 0x00000000 s10;
          s12 = wr32 ICU_IELSR08 IRQ_SPI0_SPTI s11
      in wr8 PFS_P107PFS_BY 0x04 s12)"

definition setup_peripherals :: "hardware \<Rightarrow> machine \<Rightarrow> machine" where
  "setup_peripherals hw s0 =
     (let (retVal8, s1) = setup_spi1 hw SPI_MASTER SPI_BR_8M0Hz SPI_BITS_32 SPI_IRQEN s0;
          (retVal8, s2) = setup_spi0 hw SPI_SLAVE SPI_BR_8M0Hz SPI_BITS_32 SPI_POLL s1;
          s3 = setup_adc hw s2;
          s4 = setup_dac hw s3;
          s5 = setup_timers hw s4
      in wr8 AGT0_AGTCR 0 s5)"

definition setup_sketch ::
  "(nat \<Rightarrow> bool) \<Rightarrow> hardware \<Rightarrow> machine \<Rightarrow> machine option" where
  "setup_sketch ready hw s0 =
     (let s1 = setup_interrupts s0
      in case wait_serial ready 0 of
           None \<Rightarrow> None
         | Some n \<Rightarrow> Some (setup_peripherals hw s1))"

section \<open>Observing the bus\<close>

text \<open>The accesses made between two states of one run.\<close>

definition since :: "machine \<Rightarrow> machine \<Rightarrow> event list" where
  "since s s' = drop (length (trace s)) (trace s')"

fun ev_reg :: "event \<Rightarrow> reg" where
  "ev_reg (Rd r v) = r"
| "ev_reg (Wr r v) = r"

fun is_write :: "event \<Rightarrow> bool" where
  "is_write (Rd r v) = False"
| "is_write (Wr r v) = True"

text \<open>The values read from, and written to, one register, in order.\<close>

fun reads_of :: "reg \<Rightarrow> event list \<Rightarrow> 32 word list" where
  "reads_of r [] = []"
| "reads_of r (Rd r' v # es) = (if r' = r then v # reads_of r es else reads_of r es)"
| "reads_of r (Wr r' v # es) = reads_of r es"

fun writes_of :: "reg \<Rightarrow> event list \<Rightarrow> 32 word list" where
  "writes_of r [] = []"
| "writes_of r (Wr r' v # es) = (if r' = r then v # writes_of r es else writes_of r es)"
| "writes_of r (Rd r' v # es) = writes_of r es"

text \<open>
  The peripheral a register belongs to. The pin function registers that the handlers pulse
  as timing marks, the interrupt controller and the module stop registers serve no
  peripheral of the four phases.
\<close>

datatype peripheral = Adc | Spi int | Dac | Gpt

fun unit_of :: "reg \<Rightarrow> peripheral option" where
  "unit_of (ADC140 r) = Some Adc"
| "unit_of (SPI n r) = Some (Spi n)"
| "unit_of (DAC12 r) = Some Dac"
| "unit_of (GPT n r) = Some Gpt"
| "unit_of r = None"

definition units :: "event list \<Rightarrow> peripheral list" where
  "units es = List.map_filter (\<lambda>e. unit_of (ev_reg e)) es"

text \<open>The accesses to the registers of one peripheral: write or read, and the register.\<close>

definition accesses_of :: "peripheral \<Rightarrow> event list \<Rightarrow> (bool \<times> reg) list" where
  "accesses_of p es =
     map (\<lambda>e. (is_write e, ev_reg e)) (filter (\<lambda>e. unit_of (ev_reg e) = Some p) es)"

text \<open>
  The register groups of a GPT channel, and the channels of which a run has written a
  register of every group.
\<close>

datatype gpt_group = Control | Counter | Compare | Period | Io

fun group_of :: "gpt_reg \<Rightarrow> gpt_group option" where
  "group_of GTCR = Some Control"
| "group_of GTCNT = Some Counter"
| "group_of GTCCRA = Some Compare"
| "group_of GTCCRB = Some Compare"
| "group_of GTCCRC = Some Compare"
| "group_of GTCCRD = Some Compare"
| "group_of GTPR = Some Period"
| "group_of GTPBR = Some Period"
| "group_of GTIOR = Some Io"
| "group_of r = None"

fun writes_group :: "int \<Rightarrow> gpt_group \<Rightarrow> event \<Rightarrow> bool" where
  "writes_group c g (Wr (GPT c' r) v) = (c' = c \<and> group_of r = Some g)"
| "writes_group c g e = False"

definition initialised :: "int \<Rightarrow> event list \<Rightarrow> bool" where
  "initialised c es =
     list_all (\<lambda>g. list_ex (writes_group c g) es) [Control, Counter, Compare, Period, Io]"

definition configured_channels :: "event list \<Rightarrow> int list" where
  "configured_channels es = filter (\<lambda>c. initialised c es) [0 .. 7]"

text \<open>A machine to run the code on: the initialisers of the source, registers at zero.\<close>

definition power_on :: machine where
  "power_on =
     \<lparr>vars = \<lparr>adc_val_A0 = 0, adc_val_A1 = 0, adc_val_A2 = 0, loop_counter = 0,
              loopFlag = False, actionFlag = False, sineFlag = True, phaccu0 = 0,
              tword_m0 = 100, icount0 = 0, directionFlag = False, spi1_received_val = 0,
              spi1_transmit_val = 0, spi0_received_val = 0, spi0_transmit_val = 0\<rparr>,
      statics = \<lparr>localValA1 = 0, localValA2 = 0, localCount = 0, test = 0\<rparr>,
      regs = (\<lambda>r. 0), attached = Map.empty, trace = []\<rparr>"

text \<open>Hardware that drives no register: every read returns what was written last.\<close>

definition quiet :: hardware where
  "quiet t r = None"

text \<open>
  Hardware whose converter presents the result \<open>v\<close> for channel AN00 at every read, and that
  drives no other register.
\<close>

definition adc_reading :: "32 word \<Rightarrow> hardware" where
  "adc_reading v t r = (if r = ADC140_ADDR00 then Some v else None)"

section \<open>Lemmas about the model\<close>

lemmas prims = rd32_def rd16_def rd8_def wr32_def wr16_def wr8_def
  or32_def or16_def or8_def and32_def and8_def

lemma since_trans:
  assumes "trace b = trace a @ since a b" and "trace c = trace b @ since b c"
  shows "trace c = trace a @ since a c" and "since a c = since a b @ since b c"
proof -
  have eq: "trace c = trace a @ (since a b @ since b c)"
    using assms by simp
  show step: "since a c = since a b @ since b c"
    by (subst since_def, subst eq) simp
  show "trace c = trace a @ since a c"
    using eq step by simp
qed

lemma reads_of_append [simp]: "reads_of r (xs @ ys) = reads_of r xs @ reads_of r ys"
  by (induction r xs rule: reads_of.induct) simp_all

lemma writes_of_append [simp]: "writes_of r (xs @ ys) = writes_of r xs @ writes_of r ys"
  by (induction r xs rule: writes_of.induct) simp_all

lemma units_append [simp]: "units (xs @ ys) = units xs @ units ys"
  by (simp add: units_def map_filter_def)

lemma units_Nil [simp]: "units [] = []"
  by (simp add: units_def map_filter_def)

lemma units_Cons [simp]:
  "units (e # es) = (case unit_of (ev_reg e) of None \<Rightarrow> units es | Some p \<Rightarrow> p # units es)"
  by (simp add: units_def map_filter_def split: option.splits)

lemma untouched:
  assumes "unit_of r = Some p" and "p \<notin> set (units es)"
  shows "reads_of r es = []" and "writes_of r es = []"
proof -
  show "reads_of r es = []"
    using assms
  proof (induction es)
    case Nil
    then show ?case by simp
  next
    case (Cons e es)
    then show ?case by (cases e) (auto split: option.splits)
  qed
  show "writes_of r es = []"
    using assms
  proof (induction es)
    case Nil
    then show ?case by simp
  next
    case (Cons e es)
    then show ?case by (cases e) (auto split: option.splits)
  qed
qed

subsection \<open>The sections of the timer interrupt\<close>

text \<open>ADC.\<close>

lemma adc_trace: "trace (timer7_adc hw s) = trace s @ since s (timer7_adc hw s)"
  by (simp add: timer7_adc_def prims Let_def since_def)

lemma adc_units: "units (since s (timer7_adc hw s)) = [Adc, Adc, Adc, Adc]"
  by (simp add: timer7_adc_def prims Let_def since_def)

lemma adc_vars:
  "\<exists>a1 a2. vars (timer7_adc hw s) = (vars s)\<lparr>adc_val_A1 := a1, adc_val_A2 := a2\<rparr>"
  by (simp add: timer7_adc_def prims Let_def since_def) blast

lemma adc_statics: "statics (timer7_adc hw s) = statics s"
  by (simp add: timer7_adc_def prims Let_def since_def)

lemma adc_reads:
  "reads_of ADC140_ADDR00 (since s (timer7_adc hw s)) = [ucast (adc_val_A1 (vars (timer7_adc hw s)))]"
  "reads_of ADC140_ADDR01 (since s (timer7_adc hw s)) = [ucast (adc_val_A2 (vars (timer7_adc hw s)))]"
  by (simp_all add: timer7_adc_def prims Let_def since_def)

text \<open>DAC.\<close>

lemma dac_trace: "trace (timer7_dac s) = trace s @ since s (timer7_dac s)"
  by (simp add: timer7_dac_def prims Let_def since_def)

lemma dac_units: "units (since s (timer7_dac s)) = [Dac]"
  by (simp add: timer7_dac_def prims Let_def since_def)

lemma dac_vars:
  "\<exists>p i. vars (timer7_dac s) = (vars s)\<lparr>phaccu0 := p, icount0 := i\<rparr>"
proof (cases "sineFlag (vars s)")
  case True
  then show ?thesis by (simp add: timer7_dac_def prims Let_def since_def) blast
next
  case False
  then have "vars (timer7_dac s) = (vars s)\<lparr>phaccu0 := phaccu0 (vars s), icount0 := icount0 (vars s)\<rparr>"
    by (simp add: timer7_dac_def prims Let_def since_def)
  then show ?thesis by blast
qed

lemma dac_writes:
  "writes_of DAC12_DADR0 (since s (timer7_dac s)) =
     [if sineFlag (vars s)
      then ucast (ucast (drop_bit 20 (phaccu0 (vars s) + tword_m0 (vars s))) :: 16 word)
      else ucast (drop_bit 2 (adc_val_A1 (vars s)))]"
  by (simp add: timer7_dac_def prims Let_def since_def)

text \<open>GPT PWM.\<close>

lemma clamp_A1:
  "pwm_clamp_A1 s = s\<lparr>statics := (statics s)\<lparr>localValA1 :=
     (if drop_bit 4 (adc_val_A1 (vars s)) = 0 then 1
      else if drop_bit 4 (adc_val_A1 (vars s)) \<ge> 0x3FF then 0x3FE
      else drop_bit 4 (adc_val_A1 (vars s)))\<rparr>\<rparr>"
  by (simp add: pwm_clamp_A1_def Let_def)

lemma clamp_A2:
  "pwm_clamp_A2 s = s\<lparr>statics := (statics s)\<lparr>localValA2 :=
     (if drop_bit 4 (adc_val_A2 (vars s)) = 0 then 1
      else if drop_bit 4 (adc_val_A2 (vars s)) \<ge> 0x3FF then 0x3FE
      else drop_bit 4 (adc_val_A2 (vars s)))\<rparr>\<rparr>"
  by (simp add: pwm_clamp_A2_def Let_def)

lemma pwm_trace: "trace (timer7_pwm s) = trace s @ since s (timer7_pwm s)"
  by (simp add: timer7_pwm_def clamp_A1 clamp_A2 pwm_duty_def pwm_direction_def prims Let_def since_def)

lemma pwm_units: "units (since s (timer7_pwm s)) = [Gpt, Gpt, Gpt, Gpt]"
  by (simp add: timer7_pwm_def clamp_A1 clamp_A2 pwm_duty_def pwm_direction_def prims Let_def since_def)

lemma pwm_vars: "vars (timer7_pwm s) = (vars s)\<lparr>directionFlag := \<not> directionFlag (vars s)\<rparr>"
  by (simp add: timer7_pwm_def clamp_A1 clamp_A2 pwm_duty_def pwm_direction_def prims Let_def since_def)

lemma pwm_writes:
  "writes_of (GPT321 GTCCRD) (since s (timer7_pwm s)) =
     [ucast (if drop_bit 4 (adc_val_A1 (vars s)) = 0 then 1
      else if drop_bit 4 (adc_val_A1 (vars s)) \<ge> 0x3FF then 0x3FE
      else drop_bit 4 (adc_val_A1 (vars s)))]"
  by (simp add: timer7_pwm_def clamp_A1 clamp_A2 pwm_duty_def pwm_direction_def prims Let_def since_def)

text \<open>Loop counter.\<close>

lemma count_trace: "trace (timer7_count s) = trace s @ since s (timer7_count s)"
  by (simp add: timer7_count_def prims Let_def since_def)

lemma count_units: "units (since s (timer7_count s)) = []"
  by (simp add: timer7_count_def prims Let_def since_def)

lemma count_vars:
  "vars (timer7_count s) =
     (if loop_counter (vars s) + 1 \<ge> LOOP_COUNT_VAL
      then (vars s)\<lparr>loop_counter := 0, loopFlag := True\<rparr>
      else (vars s)\<lparr>loop_counter := loop_counter (vars s) + 1\<rparr>)"
  by (simp add: timer7_count_def prims Let_def since_def)

lemma flag_exp: "(f AND 2 ^ n = 2 ^ n) = bit f n" if "n < 8" for f :: "8 word"
proof
  assume "f AND 2 ^ n = 2 ^ n"
  then have "f AND 2 ^ n \<noteq> 0"
    using that by (simp add: exp_eq_zero_iff)
  then show "bit f n"
    by (simp add: and_exp_eq_0_iff_not_bit)
next
  assume "bit f n"
  then show "f AND 2 ^ n = 2 ^ n"
    by (intro bit_word_eqI) (auto simp add: bit_simps)
qed

lemma flag7: "(f AND 0x80 = 0x80) = bit f 7" for f :: "8 word"
  using flag_exp [of 7 f] by simp

lemma flag7_ucast: "bit (ucast f :: 32 word) 7 = bit f 7" for f :: "8 word"
  by (simp add: bit_ucast_iff)

text \<open>SPI0.\<close>

lemma flags_trace: "trace (spi0_flags hw s) = trace s @ since s (spi0_flags hw s)"
  by (simp add: spi0_flags_def prims Let_def since_def)

lemma flags_units: "units (since s (spi0_flags hw s)) = [Spi 0, Spi 0, Spi 0, Spi 0]"
  by (simp add: spi0_flags_def prims Let_def since_def)

lemma flags_vars: "vars (spi0_flags hw s) = vars s"
  by (simp add: spi0_flags_def prims Let_def since_def)

lemma flags_reads:
  "length (reads_of SPI0_SPSR (since s (spi0_flags hw s))) = 2"
  "reads_of SPI0_SPDR (since s (spi0_flags hw s)) = []"
  by (simp_all add: spi0_flags_def prims Let_def since_def)

lemma receive_trace: "trace (spi0_receive hw s) = trace s @ since s (spi0_receive hw s)"
  by (simp add: spi0_receive_def prims Let_def since_def)

lemma receive_units:
  "units (since s (spi0_receive hw s)) \<in> {[Spi 0], [Spi 0, Spi 0]}"
  by (simp add: spi0_receive_def prims Let_def since_def)

lemma receive_spec:
  "\<exists>f d. reads_of SPI0_SPSR (since s (spi0_receive hw s)) = [f] \<and>
     reads_of SPI0_SPDR (since s (spi0_receive hw s)) = (if bit f 7 then [d] else []) \<and>
     vars (spi0_receive hw s) =
       (vars s)\<lparr>spi0_received_val := (if bit f 7 then d else spi0_received_val (vars s))\<rparr>"
proof -
  define f where "f = (ucast (bus_read hw (length (trace s)) SPI0_SPSR (regs s SPI0_SPSR)) :: 8 word)"
  define d where "d = bus_read hw (Suc (length (trace s))) SPI0_SPDR (regs s SPI0_SPDR)"
  have "reads_of SPI0_SPSR (since s (spi0_receive hw s)) = [ucast f]"
    by (simp add: spi0_receive_def prims Let_def since_def f_def)
  moreover have "reads_of SPI0_SPDR (since s (spi0_receive hw s)) = (if bit f 7 then [d] else [])"
    by (simp add: spi0_receive_def prims Let_def since_def f_def d_def flag7)
  moreover have "vars (spi0_receive hw s) =
       (vars s)\<lparr>spi0_received_val := (if bit f 7 then d else spi0_received_val (vars s))\<rparr>"
    by (simp add: spi0_receive_def prims Let_def since_def f_def d_def flag7)
  ultimately show ?thesis
    by (intro exI [of _ "ucast f"] exI [of _ d]) (simp add: flag7_ucast)
qed

lemma transmit_trace: "trace (spi0_transmit hw s) = trace s @ since s (spi0_transmit hw s)"
  by (simp add: spi0_transmit_def prims Let_def since_def)

lemma transmit_units:
  "units (since s (spi0_transmit hw s)) \<in> {[Spi 0], [Spi 0, Spi 0]}"
  by (simp add: spi0_transmit_def prims Let_def since_def)

lemma transmit_vars: "vars (spi0_transmit hw s) = vars s"
  by (simp add: spi0_transmit_def prims Let_def since_def)

lemma transmit_reads:
  "length (reads_of SPI0_SPSR (since s (spi0_transmit hw s))) = 1"
  "reads_of SPI0_SPDR (since s (spi0_transmit hw s)) = []"
  by (simp_all add: spi0_transmit_def prims Let_def since_def)

lemma fault_trace: "trace (spi0_fault hw s) = trace s @ since s (spi0_fault hw s)"
  by (simp add: spi0_fault_def prims Let_def since_def)

lemma fault_units:
  "units (since s (spi0_fault hw s)) \<in> {[Spi 0], [Spi 0, Spi 0, Spi 0]}"
  by (simp add: spi0_fault_def prims Let_def since_def)

lemma fault_vars: "vars (spi0_fault hw s) = vars s"
  by (simp add: spi0_fault_def prims Let_def since_def)

lemma fault_reads:
  "reads_of SPI0_SPSR (since s (spi0_fault hw s)) \<noteq> []"
  "reads_of SPI0_SPDR (since s (spi0_fault hw s)) = []"
  by (simp_all add: spi0_fault_def prims Let_def since_def)

lemma receive_statics: "\<exists>t. statics (spi0_receive hw s) = (statics s)\<lparr>test := t\<rparr>"
  by (simp add: spi0_receive_def prims Let_def) blast

lemma transmit_statics: "\<exists>t. statics (spi0_transmit hw s) = (statics s)\<lparr>test := t\<rparr>"
  by (simp add: spi0_transmit_def prims Let_def) blast

lemma fault_statics: "\<exists>t. statics (spi0_fault hw s) = (statics s)\<lparr>test := t\<rparr>"
  by (simp add: spi0_fault_def prims Let_def) blast

lemma flags_statics: "statics (spi0_flags hw s) = statics s"
  by (simp add: spi0_flags_def prims Let_def)

lemma spi0_since:
  "since s (timer7_spi0 hw s) =
     since s (spi0_flags hw s) @
     since (spi0_flags hw s) (spi0_receive hw (spi0_flags hw s)) @
     since (spi0_receive hw (spi0_flags hw s))
       (spi0_transmit hw (spi0_receive hw (spi0_flags hw s))) @
     since (spi0_transmit hw (spi0_receive hw (spi0_flags hw s)))
       (spi0_fault hw (spi0_transmit hw (spi0_receive hw (spi0_flags hw s))))"
  and spi0_trace: "trace (timer7_spi0 hw s) = trace s @ since s (timer7_spi0 hw s)"
proof -
  define a where "a = spi0_flags hw s"
  define b where "b = spi0_receive hw a"
  define c where "c = spi0_transmit hw b"
  define e where "e = spi0_fault hw c"
  have sa: "trace a = trace s @ since s a"
    unfolding a_def by (rule flags_trace)
  have ab: "trace b = trace a @ since a b"
    unfolding b_def by (rule receive_trace)
  have bc: "trace c = trace b @ since b c"
    unfolding c_def by (rule transmit_trace)
  have ce: "trace e = trace c @ since c e"
    unfolding e_def by (rule fault_trace)
  note sb = since_trans [OF sa ab]
  note sc = since_trans [OF sb(1) bc]
  note se = since_trans [OF sc(1) ce]
  have e: "timer7_spi0 hw s = e"
    by (simp add: timer7_spi0_def a_def b_def c_def e_def)
  show "trace (timer7_spi0 hw s) = trace s @ since s (timer7_spi0 hw s)"
    using se(1) by (simp add: e)
  show "since s (timer7_spi0 hw s) =
     since s (spi0_flags hw s) @
     since (spi0_flags hw s) (spi0_receive hw (spi0_flags hw s)) @
     since (spi0_receive hw (spi0_flags hw s))
       (spi0_transmit hw (spi0_receive hw (spi0_flags hw s))) @
     since (spi0_transmit hw (spi0_receive hw (spi0_flags hw s)))
       (spi0_fault hw (spi0_transmit hw (spi0_receive hw (spi0_flags hw s))))"
    using se(2) sc(2) sb(2) by (simp add: e) (simp add: a_def b_def c_def e_def)
qed

lemma spi0_units:
  "units (since s (timer7_spi0 hw s)) \<noteq> []"
  "set (units (since s (timer7_spi0 hw s))) \<subseteq> {Spi 0}"
proof -
  let ?a = "spi0_flags hw s"
  let ?b = "spi0_receive hw ?a"
  let ?c = "spi0_transmit hw ?b"
  show "units (since s (timer7_spi0 hw s)) \<noteq> []"
    by (simp add: spi0_since [of s hw] flags_units)
  show "set (units (since s (timer7_spi0 hw s))) \<subseteq> {Spi 0}"
    using receive_units [of ?a hw] transmit_units [of ?b hw] fault_units [of ?c hw]
    by (auto simp add: spi0_since [of s hw] flags_units)
qed

lemma spi0_vars:
  "\<exists>v. vars (timer7_spi0 hw s) = (vars s)\<lparr>spi0_received_val := v\<rparr>"
  using receive_spec [of "spi0_flags hw s" hw]
  by (auto simp add: timer7_spi0_def fault_vars transmit_vars flags_vars)

lemma spi0_statics:
  "\<exists>t. statics (timer7_spi0 hw s) = (statics s)\<lparr>test := t\<rparr>"
proof -
  let ?a = "spi0_flags hw s"
  let ?b = "spi0_receive hw ?a"
  let ?c = "spi0_transmit hw ?b"
  obtain t1 where "statics ?b = (statics ?a)\<lparr>test := t1\<rparr>"
    using receive_statics by blast
  moreover obtain t2 where "statics ?c = (statics ?b)\<lparr>test := t2\<rparr>"
    using transmit_statics by blast
  moreover obtain t3 where "statics (spi0_fault hw ?c) = (statics ?c)\<lparr>test := t3\<rparr>"
    using fault_statics by blast
  ultimately show ?thesis
    by (simp add: timer7_spi0_def flags_statics) blast
qed

lemma spi0_spec:
  "\<exists>pre f post d.
     reads_of SPI0_SPSR (since s (timer7_spi0 hw s)) = pre @ f # post \<and>
     length pre = 2 \<and> 2 \<le> length post \<and>
     reads_of SPI0_SPDR (since s (timer7_spi0 hw s)) = (if bit f 7 then [d] else []) \<and>
     vars (timer7_spi0 hw s) =
       (vars s)\<lparr>spi0_received_val := (if bit f 7 then d else spi0_received_val (vars s))\<rparr>"
proof -
  let ?a = "spi0_flags hw s"
  let ?b = "spi0_receive hw ?a"
  let ?c = "spi0_transmit hw ?b"
  have e: "timer7_spi0 hw s = spi0_fault hw ?c"
    by (simp add: timer7_spi0_def)
  obtain f d where rx:
    "reads_of SPI0_SPSR (since ?a ?b) = [f]"
    "reads_of SPI0_SPDR (since ?a ?b) = (if bit f 7 then [d] else [])"
    "vars ?b = (vars ?a)\<lparr>spi0_received_val := (if bit f 7 then d else spi0_received_val (vars ?a))\<rparr>"
    using receive_spec [of ?a hw] by blast
  let ?pre = "reads_of SPI0_SPSR (since s ?a)"
  let ?post = "reads_of SPI0_SPSR (since ?b ?c) @ reads_of SPI0_SPSR (since ?c (spi0_fault hw ?c))"
  have "reads_of SPI0_SPSR (since s (timer7_spi0 hw s)) = ?pre @ f # ?post"
    by (simp add: spi0_since [of s hw] rx(1))
  moreover have "length ?pre = 2"
    by (rule flags_reads)
  moreover have "2 \<le> length ?post"
    using fault_reads(1) [of "?c" hw] transmit_reads(1) [of "?b" hw]
    by (cases "reads_of SPI0_SPSR (since ?c (spi0_fault hw ?c))") simp_all
  moreover have "reads_of SPI0_SPDR (since s (timer7_spi0 hw s)) = (if bit f 7 then [d] else [])"
    by (simp add: spi0_since [of s hw] rx(2) flags_reads transmit_reads fault_reads)
  moreover have "vars (timer7_spi0 hw s) =
       (vars s)\<lparr>spi0_received_val := (if bit f 7 then d else spi0_received_val (vars s))\<rparr>"
    by (simp add: e fault_vars transmit_vars rx(3) flags_vars)
  ultimately show ?thesis
    by blast
qed

lemma send_trace: "trace (spi1_send hw s) = trace s @ since s (spi1_send hw s)"
  by (simp add: spi1_send_def prims Let_def since_def)

lemma send_units: "units (since s (spi1_send hw s)) = [Spi 1, Spi 1, Spi 1, Spi 1, Spi 1, Spi 1]"
  by (simp add: spi1_send_def prims Let_def since_def)

lemma send_vars: "vars (spi1_send hw s) = vars s"
  by (simp add: spi1_send_def prims Let_def since_def)

lemma send_statics:
  "statics (spi1_send hw s) = (statics s)\<lparr>localCount := localCount (statics s) + 1\<rparr>"
  by (simp add: spi1_send_def prims Let_def since_def)

lemma send_accesses:
  "length (reads_of SPI1_SPSR (since s (spi1_send hw s))) = 2"
  "length (reads_of SPI1_SPDR (since s (spi1_send hw s))) = 1"
  "writes_of SPI1_SPDR (since s (spi1_send hw s)) = [ucast (localCount (statics s))]"
  by (simp_all add: spi1_send_def prims Let_def since_def)

lemma sprf:
  "(f AND push_bit SPSR_SPRF 1 = push_bit SPSR_SPRF 1) = bit f 7"
  "(f AND 2 ^ SPSR_SPRF = 2 ^ SPSR_SPRF) = bit f 7" for f :: "8 word"
  using flag7 [of f] by (simp_all add: SPSR_SPRF_def)

lemma poll_spec:
  "trace (spi1_poll hw i s) = trace s @ since s (spi1_poll hw i s) \<and>
   set (units (since s (spi1_poll hw i s))) \<subseteq> {Spi 1} \<and>
   (i < 16 \<longrightarrow> units (since s (spi1_poll hw i s)) \<noteq> []) \<and>
   length (reads_of SPI1_SPSR (since s (spi1_poll hw i s))) \<le> 16 - unat i \<and>
   \<not> list_ex (\<lambda>v. bit v 7) (butlast (reads_of SPI1_SPSR (since s (spi1_poll hw i s)))) \<and>
   writes_of SPI1_SPDR (since s (spi1_poll hw i s)) = [] \<and>
   (if list_ex (\<lambda>v. bit v 7) (reads_of SPI1_SPSR (since s (spi1_poll hw i s)))
    then \<exists>d. reads_of SPI1_SPDR (since s (spi1_poll hw i s)) = [d] \<and>
           vars (spi1_poll hw i s) = (vars s)\<lparr>spi1_received_val := d\<rparr>
    else length (reads_of SPI1_SPSR (since s (spi1_poll hw i s))) = 16 - unat i \<and>
         reads_of SPI1_SPDR (since s (spi1_poll hw i s)) = [] \<and>
         vars (spi1_poll hw i s) = vars s) \<and>
   (\<exists>t. statics (spi1_poll hw i s) = (statics s)\<lparr>test := t\<rparr>)"
proof (induction hw i s rule: spi1_poll.induct)
  case (1 hw i s0)
  define s1 where "s1 = s0\<lparr>statics := (statics s0)\<lparr>test := i\<rparr>\<rparr>"
  define f where "f = (ucast (bus_read hw (length (trace s0)) SPI1_SPSR (regs s0 SPI1_SPSR)) :: 8 word)"
  define s2 where "s2 = s1\<lparr>trace := trace s0 @ [Rd SPI1_SPSR (ucast f)]\<rparr>"
  note s2 = s2_def
  have rd: "rd8 hw SPI1_SPSR s1 = (f, s2)"
    by (simp add: s2_def f_def rd8_def Let_def s1_def)
  show ?case
  proof (cases "i < 16")
    case False
    then have "spi1_poll hw i s0 = s1"
      by (subst spi1_poll.simps) (simp add: s1_def)
    moreover from False have "16 - unat i = 0"
      by (simp add: word_less_nat_alt)
    ultimately show ?thesis
      using False by (simp add: s1_def since_def) blast
  next
    case small: True
    then have "unat i < 16"
      by (simp add: word_less_nat_alt)
    then have suc: "unat (i + 1) = unat i + 1"
      by (simp add: unat_word_ariths)
    show ?thesis
    proof (cases "bit f 7")
      case True
      define d where "d = bus_read hw (Suc (Suc (length (trace s0)))) SPI1_SPDR (regs s0 SPI1_SPDR)"
      have P: "spi1_poll hw i s0 =
          s1\<lparr>regs := (regs s0)(PFS_P107PFS_BY := 5, PFS_P107PFS_BY := 4),
             trace := trace s0 @ [Rd SPI1_SPSR (ucast f), Wr PFS_P107PFS_BY 5, Rd SPI1_SPDR d,
               Wr PFS_P107PFS_BY 4],
             vars := (vars s0)\<lparr>spi1_received_val := d\<rparr>\<rparr>"
        using small True
        by (subst spi1_poll.simps) (simp add: prims Let_def sprf f_def d_def s1_def)
      show ?thesis
        using small True \<open>unat i < 16\<close>
        by (simp add: P since_def s1_def flag7_ucast) (rule conjI, arith, rule exI [of _ i], rule refl)
    next
      case False
      have P: "spi1_poll hw i s0 = spi1_poll hw (i + 1) s2"
        using small False
        by (subst spi1_poll.simps) (simp add: prims Let_def sprf f_def s1_def s2_def)
      have neq: "f AND push_bit SPSR_SPRF 1 \<noteq> push_bit SPSR_SPRF 1"
        using False by (simp add: sprf)
      have IH:
        "trace (spi1_poll hw (i + 1) s2) = trace s2 @ since s2 (spi1_poll hw (i + 1) s2) \<and>
         set (units (since s2 (spi1_poll hw (i + 1) s2))) \<subseteq> {Spi 1} \<and>
         (i + 1 < 16 \<longrightarrow> units (since s2 (spi1_poll hw (i + 1) s2)) \<noteq> []) \<and>
         length (reads_of SPI1_SPSR (since s2 (spi1_poll hw (i + 1) s2))) \<le> 16 - unat (i + 1) \<and>
         \<not> list_ex (\<lambda>v. bit v 7) (butlast (reads_of SPI1_SPSR (since s2 (spi1_poll hw (i + 1) s2)))) \<and>
         writes_of SPI1_SPDR (since s2 (spi1_poll hw (i + 1) s2)) = [] \<and>
         (if list_ex (\<lambda>v. bit v 7) (reads_of SPI1_SPSR (since s2 (spi1_poll hw (i + 1) s2)))
          then \<exists>d. reads_of SPI1_SPDR (since s2 (spi1_poll hw (i + 1) s2)) = [d] \<and>
                 vars (spi1_poll hw (i + 1) s2) = (vars s2)\<lparr>spi1_received_val := d\<rparr>
          else length (reads_of SPI1_SPSR (since s2 (spi1_poll hw (i + 1) s2))) = 16 - unat (i + 1) \<and>
               reads_of SPI1_SPDR (since s2 (spi1_poll hw (i + 1) s2)) = [] \<and>
               vars (spi1_poll hw (i + 1) s2) = vars s2) \<and>
         (\<exists>t. statics (spi1_poll hw (i + 1) s2) = (statics s2)\<lparr>test := t\<rparr>)"
        by (rule "1.IH" [OF s1_def small refl rd [symmetric] neq])
      have step: "trace s2 = trace s0 @ since s0 s2"
        by (simp add: s2 since_def)
      have first: "since s0 s2 = [Rd SPI1_SPSR (ucast f)]"
        by (simp add: s2 since_def)
      from IH have rest: "trace (spi1_poll hw (i + 1) s2) = trace s2 @ since s2 (spi1_poll hw (i + 1) s2)"
        by blast
      note whole = since_trans [OF step rest]
      have E: "since s0 (spi1_poll hw i s0) =
          Rd SPI1_SPSR (ucast f) # since s2 (spi1_poll hw (i + 1) s2)"
        using whole(2) by (simp add: P first)
      have T: "trace (spi1_poll hw i s0) = trace s0 @ since s0 (spi1_poll hw i s0)"
        using whole(1) by (simp add: P)
      have v: "vars s2 = vars s0" and st: "statics s2 = (statics s0)\<lparr>test := i\<rparr>"
        by (simp_all add: s2 s1_def)
      have nf: "\<not> bit (ucast f :: 32 word) 7"
        using False by (simp add: flag7_ucast)
      let ?Q = "spi1_poll hw (i + 1) s2"
      let ?fs = "reads_of SPI1_SPSR (since s2 ?Q)"
      have rds: "reads_of SPI1_SPSR (since s0 (spi1_poll hw i s0)) = ucast f # ?fs"
        by (simp add: E)
      have c2: "set (units (since s0 (spi1_poll hw i s0))) \<subseteq> {Spi 1}"
        using IH by (simp add: E)
      have c3: "units (since s0 (spi1_poll hw i s0)) \<noteq> []"
        by (simp add: E)
      have c4: "length (reads_of SPI1_SPSR (since s0 (spi1_poll hw i s0))) \<le> 16 - unat i"
        using IH \<open>unat i < 16\<close> by (auto simp add: rds suc)
      have c5: "\<not> list_ex (\<lambda>v. bit v 7)
          (butlast (reads_of SPI1_SPSR (since s0 (spi1_poll hw i s0))))"
        using IH nf by (simp add: rds)
      have c6: "writes_of SPI1_SPDR (since s0 (spi1_poll hw i s0)) = []"
        using IH by (simp add: E)
      have ex: "list_ex (\<lambda>v. bit v 7) (reads_of SPI1_SPSR (since s0 (spi1_poll hw i s0))) =
          list_ex (\<lambda>v. bit v 7) ?fs"
        using nf by (simp add: rds)
      have sp: "reads_of SPI1_SPDR (since s0 (spi1_poll hw i s0)) =
          reads_of SPI1_SPDR (since s2 ?Q)"
        by (simp add: E)
      have c7: "if list_ex (\<lambda>v. bit v 7) (reads_of SPI1_SPSR (since s0 (spi1_poll hw i s0)))
          then \<exists>d. reads_of SPI1_SPDR (since s0 (spi1_poll hw i s0)) = [d] \<and>
                 vars (spi1_poll hw i s0) = (vars s0)\<lparr>spi1_received_val := d\<rparr>
          else length (reads_of SPI1_SPSR (since s0 (spi1_poll hw i s0))) = 16 - unat i \<and>
               reads_of SPI1_SPDR (since s0 (spi1_poll hw i s0)) = [] \<and>
               vars (spi1_poll hw i s0) = vars s0"
      proof (cases "list_ex (\<lambda>v. bit v 7) ?fs")
        case True
        with IH obtain d where "reads_of SPI1_SPDR (since s2 ?Q) = [d]"
          and "vars ?Q = (vars s2)\<lparr>spi1_received_val := d\<rparr>"
          by auto
        with True show ?thesis
          unfolding ex sp by (simp add: P v)
      next
        case False
        with IH have "length ?fs = 16 - unat (i + 1)"
          and "reads_of SPI1_SPDR (since s2 ?Q) = []" and "vars ?Q = vars s2"
          by auto
        with False nf \<open>unat i < 16\<close> show ?thesis
          unfolding sp rds by (auto simp add: P v suc)
      qed
      from IH obtain t where "statics ?Q = (statics s2)\<lparr>test := t\<rparr>"
        by blast
      then have "statics (spi1_poll hw i s0) = (statics s0)\<lparr>test := t\<rparr>"
        by (simp add: P st)
      then have c8: "\<exists>t. statics (spi1_poll hw i s0) = (statics s0)\<lparr>test := t\<rparr>"
        by (rule exI)
      from T c2 c3 c4 c5 c6 c7 c8 show ?thesis
        by blast
    qed
  qed
qed

lemma spi1_since:
  "since s (timer7_spi1 hw s) =
     since s (spi1_send hw s) @
     since (spi1_send hw s) (spi1_poll hw 0 (spi1_send hw s)) @
     [Wr PFS_P106PFS_BY 4, Wr PFS_P107PFS_BY 4]"
  and spi1_trace: "trace (timer7_spi1 hw s) = trace s @ since s (timer7_spi1 hw s)"
proof -
  define a where "a = spi1_send hw s"
  define b where "b = spi1_poll hw 0 a"
  define c where "c = wr8 PFS_P107PFS_BY 0x04 (wr8 PFS_P106PFS_BY 0x04 b)"
  have sa: "trace a = trace s @ since s a"
    unfolding a_def by (rule send_trace)
  have ab: "trace b = trace a @ since a b"
    unfolding b_def using poll_spec [of hw 0 a] by blast
  have bc: "trace c = trace b @ since b c"
    by (simp add: c_def prims since_def)
  have tail: "since b c = [Wr PFS_P106PFS_BY 4, Wr PFS_P107PFS_BY 4]"
    by (simp add: c_def prims since_def)
  note sb = since_trans [OF sa ab]
  note sc = since_trans [OF sb(1) bc]
  have c: "timer7_spi1 hw s = c"
    by (simp add: timer7_spi1_def a_def b_def c_def Let_def)
  show "trace (timer7_spi1 hw s) = trace s @ since s (timer7_spi1 hw s)"
    using sc(1) by (simp add: c)
  show "since s (timer7_spi1 hw s) =
     since s (spi1_send hw s) @
     since (spi1_send hw s) (spi1_poll hw 0 (spi1_send hw s)) @
     [Wr PFS_P106PFS_BY 4, Wr PFS_P107PFS_BY 4]"
    using sc(2) sb(2) tail by (simp add: c) (simp add: a_def b_def)
qed

lemma spi1_units:
  "units (since s (timer7_spi1 hw s)) \<noteq> []"
  "set (units (since s (timer7_spi1 hw s))) \<subseteq> {Spi 1}"
proof -
  show "units (since s (timer7_spi1 hw s)) \<noteq> []"
    by (simp add: spi1_since send_units)
  have "set (units (since (spi1_send hw s) (spi1_poll hw 0 (spi1_send hw s)))) \<subseteq> {Spi 1}"
    using poll_spec [of hw 0 "spi1_send hw s"] by blast
  then show "set (units (since s (timer7_spi1 hw s))) \<subseteq> {Spi 1}"
    by (simp add: spi1_since send_units)
qed

lemma spi1_final:
  "vars (timer7_spi1 hw s) = vars (spi1_poll hw 0 (spi1_send hw s))"
  "statics (timer7_spi1 hw s) = statics (spi1_poll hw 0 (spi1_send hw s))"
  by (simp_all add: timer7_spi1_def prims Let_def)

lemma spi1_spec:
  "length (drop 2 (reads_of SPI1_SPSR (since s (timer7_spi1 hw s)))) \<le> 16 \<and>
   \<not> list_ex (\<lambda>v. bit v 7) (butlast (drop 2 (reads_of SPI1_SPSR (since s (timer7_spi1 hw s))))) \<and>
   writes_of SPI1_SPDR (since s (timer7_spi1 hw s)) = [ucast (localCount (statics s))] \<and>
   (if list_ex (\<lambda>v. bit v 7) (drop 2 (reads_of SPI1_SPSR (since s (timer7_spi1 hw s))))
    then \<exists>l d. reads_of SPI1_SPDR (since s (timer7_spi1 hw s)) = [l, d] \<and>
           vars (timer7_spi1 hw s) = (vars s)\<lparr>spi1_received_val := d\<rparr>
    else length (drop 2 (reads_of SPI1_SPSR (since s (timer7_spi1 hw s)))) = 16 \<and>
         (\<exists>l. reads_of SPI1_SPDR (since s (timer7_spi1 hw s)) = [l]) \<and>
         vars (timer7_spi1 hw s) = vars s)"
proof -
  let ?a = "spi1_send hw s"
  let ?b = "spi1_poll hw 0 ?a"
  let ?fs = "reads_of SPI1_SPSR (since ?a ?b)"
  note poll = poll_spec [of hw 0 ?a]
  obtain l where l: "reads_of SPI1_SPDR (since s ?a) = [l]"
    using send_accesses(2) [of s hw] by (auto simp add: One_nat_def length_Suc_conv)
  have polls: "drop 2 (reads_of SPI1_SPSR (since s (timer7_spi1 hw s))) = ?fs"
    by (simp add: spi1_since send_accesses)
  have spdr: "reads_of SPI1_SPDR (since s (timer7_spi1 hw s)) = l # reads_of SPI1_SPDR (since ?a ?b)"
    by (simp add: spi1_since l)
  have wr: "writes_of SPI1_SPDR (since s (timer7_spi1 hw s)) = [ucast (localCount (statics s))]"
    using poll by (simp add: spi1_since send_accesses)
  have len: "length ?fs \<le> 16"
    using poll by simp
  have but: "\<not> list_ex (\<lambda>v. bit v 7) (butlast ?fs)"
    using poll by blast
  show ?thesis
  proof (cases "list_ex (\<lambda>v. bit v 7) ?fs")
    case True
    with poll obtain d where "reads_of SPI1_SPDR (since ?a ?b) = [d]"
      and "vars ?b = (vars ?a)\<lparr>spi1_received_val := d\<rparr>"
      by auto
    with True len but wr show ?thesis
      unfolding polls spdr by (simp add: spi1_final send_vars)
  next
    case False
    with poll have "length ?fs = 16" and "reads_of SPI1_SPDR (since ?a ?b) = []"
      and "vars ?b = vars ?a"
      by auto
    with False len but wr show ?thesis
      unfolding polls spdr by (simp add: spi1_final send_vars)
  qed
qed

lemma spi1_vars: "\<exists>v. vars (timer7_spi1 hw s) = (vars s)\<lparr>spi1_received_val := v\<rparr>"
proof (cases "list_ex (\<lambda>v. bit v 7) (drop 2 (reads_of SPI1_SPSR (since s (timer7_spi1 hw s))))")
  case True
  then show ?thesis
    using spi1_spec [of s hw] by auto
next
  case False
  then have "vars (timer7_spi1 hw s) = (vars s)\<lparr>spi1_received_val := spi1_received_val (vars s)\<rparr>"
    using spi1_spec [of s hw] by simp
  then show ?thesis
    by (rule exI)
qed

lemma accesses_of_append [simp]: "accesses_of p (xs @ ys) = accesses_of p xs @ accesses_of p ys"
  by (simp add: accesses_of_def)

lemma accesses_of_Nil [simp]: "accesses_of p [] = []"
  by (simp add: accesses_of_def)

lemma accesses_of_Cons [simp]:
  "accesses_of p (e # es) =
     (if unit_of (ev_reg e) = Some p then (is_write e, ev_reg e) # accesses_of p es
      else accesses_of p es)"
  by (simp add: accesses_of_def)

lemma no_accesses: "p \<notin> set (units es) \<Longrightarrow> accesses_of p es = []"
  by (induction es) (auto split: option.splits)

lemma block_head:
  assumes "xs \<noteq> []" and "set xs \<subseteq> {x}"
  shows "remdups_adj (xs @ ys) = remdups_adj (x # ys)"
  using assms
proof (induction xs)
  case Nil
  then show ?case by simp
next
  case (Cons a xs)
  then have a: "a = x" by simp
  show ?case
  proof (cases xs)
    case Nil
    with a show ?thesis by simp
  next
    case (Cons b bs)
    with Cons.prems have "b = x" by simp
    with Cons.IH Cons.prems Cons a show ?thesis by simp
  qed
qed

lemma block_next:
  assumes "xs \<noteq> []" and "set xs \<subseteq> {x}" and "a \<noteq> x"
  shows "remdups_adj (a # xs @ ys) = a # remdups_adj (x # ys)"
proof -
  from assms(1,2) obtain zs where xs: "xs = x # zs"
    by (cases xs) auto
  with assms(3) have "remdups_adj (a # xs @ ys) = a # remdups_adj (xs @ ys)"
    by simp
  with block_head [OF assms(1,2)] show ?thesis by simp
qed

lemma timer7_since:
  assumes "s1 = timer7_adc hw s" and "s2 = timer7_spi0 hw s1" and "s3 = timer7_spi1 hw s2"
    and "s4 = timer7_dac s3" and "s5 = timer7_pwm s4" and "s6 = timer7_count s5"
  shows "timer7interrupt hw s = s6"
    and "since s s6 =
      since s s1 @ since s1 s2 @ since s2 s3 @ since s3 s4 @ since s4 s5 @ since s5 s6"
proof -
  have t1: "trace s1 = trace s @ since s s1"
    unfolding assms by (rule adc_trace)
  have t2: "trace s2 = trace s1 @ since s1 s2"
    unfolding assms by (rule spi0_trace)
  have t3: "trace s3 = trace s2 @ since s2 s3"
    unfolding assms by (rule spi1_trace)
  have t4: "trace s4 = trace s3 @ since s3 s4"
    unfolding assms by (rule dac_trace)
  have t5: "trace s5 = trace s4 @ since s4 s5"
    unfolding assms by (rule pwm_trace)
  have t6: "trace s6 = trace s5 @ since s5 s6"
    unfolding assms by (rule count_trace)
  note a = since_trans [OF t1 t2]
  note b = since_trans [OF a(1) t3]
  note c = since_trans [OF b(1) t4]
  note d = since_trans [OF c(1) t5]
  note e = since_trans [OF d(1) t6]
  show "timer7interrupt hw s = s6"
    by (simp add: timer7interrupt_def assms)
  show "since s s6 =
      since s s1 @ since s1 s2 @ since s2 s3 @ since s3 s4 @ since s4 s5 @ since s5 s6"
    by (simp add: e(2) d(2) c(2) b(2) a(2))
qed

lemma timer7_units:
  "remdups_adj (units (since s (timer7interrupt hw s))) = [Adc, Spi 0, Spi 1, Dac, Gpt]"
proof -
  define s1 where "s1 = timer7_adc hw s"
  define s2 where "s2 = timer7_spi0 hw s1"
  define s3 where "s3 = timer7_spi1 hw s2"
  define s4 where "s4 = timer7_dac s3"
  define s5 where "s5 = timer7_pwm s4"
  define s6 where "s6 = timer7_count s5"
  note whole = timer7_since [OF s1_def s2_def s3_def s4_def s5_def s6_def]
  have u1: "units (since s s1) = [Adc, Adc, Adc, Adc]"
    unfolding s1_def by (rule adc_units)
  have u2: "units (since s1 s2) \<noteq> []" "set (units (since s1 s2)) \<subseteq> {Spi 0}"
    unfolding s2_def by (rule spi0_units)+
  have u3: "units (since s2 s3) \<noteq> []" "set (units (since s2 s3)) \<subseteq> {Spi 1}"
    unfolding s3_def by (rule spi1_units)+
  have u4: "units (since s3 s4) = [Dac]"
    unfolding s4_def by (rule dac_units)
  have u5: "units (since s4 s5) = [Gpt, Gpt, Gpt, Gpt]"
    unfolding s5_def by (rule pwm_units)
  have u6: "units (since s5 s6) = []"
    unfolding s6_def by (rule count_units)
  have "remdups_adj (units (since s s6)) =
      remdups_adj (Adc # units (since s1 s2) @ units (since s2 s3) @ [Dac, Gpt, Gpt, Gpt, Gpt])"
    by (simp add: whole(2) u1 u4 u5 u6)
  also have "\<dots> = Adc # remdups_adj (Spi 0 # units (since s2 s3) @ [Dac, Gpt, Gpt, Gpt, Gpt])"
    by (simp add: block_next [OF u2])
  also have "\<dots> = Adc # Spi 0 # remdups_adj (Spi 1 # [Dac, Gpt, Gpt, Gpt, Gpt])"
    by (simp add: block_next [OF u3])
  finally show ?thesis
    by (simp add: whole(1))
qed

lemma count_statics: "statics (timer7_count s) = statics s"
  by (simp add: timer7_count_def prims Let_def)

lemma pwm_statics:
  "statics (timer7_pwm s) = (statics s)\<lparr>localValA1 :=
     (if drop_bit 4 (adc_val_A1 (vars s)) = 0 then 1
      else if drop_bit 4 (adc_val_A1 (vars s)) \<ge> 0x3FF then 0x3FE
      else drop_bit 4 (adc_val_A1 (vars s))),
    localValA2 :=
     (if drop_bit 4 (adc_val_A2 (vars s)) = 0 then 1
      else if drop_bit 4 (adc_val_A2 (vars s)) \<ge> 0x3FF then 0x3FE
      else drop_bit 4 (adc_val_A2 (vars s)))\<rparr>"
  by (simp add: timer7_pwm_def clamp_A1 clamp_A2 pwm_duty_def pwm_direction_def prims Let_def)

lemma timer7_frames:
  assumes "s1 = timer7_adc hw s" and "s2 = timer7_spi0 hw s1" and "s3 = timer7_spi1 hw s2"
    and "s4 = timer7_dac s3" and "s5 = timer7_pwm s4" and "s6 = timer7_count s5"
  shows "\<exists>a1 a2 r0 r1 p i.
    vars s1 = (vars s)\<lparr>adc_val_A1 := a1, adc_val_A2 := a2\<rparr> \<and>
    vars s2 = (vars s1)\<lparr>spi0_received_val := r0\<rparr> \<and>
    vars s3 = (vars s2)\<lparr>spi1_received_val := r1\<rparr> \<and>
    vars s4 = (vars s3)\<lparr>phaccu0 := p, icount0 := i\<rparr> \<and>
    vars s5 = (vars s4)\<lparr>directionFlag := \<not> directionFlag (vars s4)\<rparr> \<and>
    vars s6 =
      (if loop_counter (vars s5) + 1 \<ge> LOOP_COUNT_VAL
       then (vars s5)\<lparr>loop_counter := 0, loopFlag := True\<rparr>
       else (vars s5)\<lparr>loop_counter := loop_counter (vars s5) + 1\<rparr>)"
proof -
  obtain a1 a2 where "vars s1 = (vars s)\<lparr>adc_val_A1 := a1, adc_val_A2 := a2\<rparr>"
    unfolding assms using adc_vars by blast
  moreover obtain r0 where "vars s2 = (vars s1)\<lparr>spi0_received_val := r0\<rparr>"
    unfolding assms using spi0_vars by blast
  moreover obtain r1 where "vars s3 = (vars s2)\<lparr>spi1_received_val := r1\<rparr>"
    unfolding assms using spi1_vars by blast
  moreover obtain p i where "vars s4 = (vars s3)\<lparr>phaccu0 := p, icount0 := i\<rparr>"
    unfolding assms using dac_vars by blast
  moreover have "vars s5 = (vars s4)\<lparr>directionFlag := \<not> directionFlag (vars s4)\<rparr>"
    unfolding assms by (rule pwm_vars)
  moreover have "vars s6 =
      (if loop_counter (vars s5) + 1 \<ge> LOOP_COUNT_VAL
       then (vars s5)\<lparr>loop_counter := 0, loopFlag := True\<rparr>
       else (vars s5)\<lparr>loop_counter := loop_counter (vars s5) + 1\<rparr>)"
    unfolding assms by (rule count_vars)
  ultimately show ?thesis
    by blast
qed

lemma timer7_sections:
  assumes "s1 = timer7_adc hw s" and "s2 = timer7_spi0 hw s1" and "s3 = timer7_spi1 hw s2"
    and "s4 = timer7_dac s3" and "s5 = timer7_pwm s4" and "s6 = timer7_count s5"
  shows "unit_of r = Some Adc \<Longrightarrow>
      reads_of r (since s s6) = reads_of r (since s s1) \<and>
      writes_of r (since s s6) = writes_of r (since s s1)"
    and "unit_of r = Some (Spi 0) \<Longrightarrow>
      reads_of r (since s s6) = reads_of r (since s1 s2) \<and>
      writes_of r (since s s6) = writes_of r (since s1 s2)"
    and "unit_of r = Some (Spi 1) \<Longrightarrow>
      reads_of r (since s s6) = reads_of r (since s2 s3) \<and>
      writes_of r (since s s6) = writes_of r (since s2 s3)"
    and "unit_of r = Some Dac \<Longrightarrow>
      reads_of r (since s s6) = reads_of r (since s3 s4) \<and>
      writes_of r (since s s6) = writes_of r (since s3 s4)"
    and "unit_of r = Some Gpt \<Longrightarrow>
      reads_of r (since s s6) = reads_of r (since s4 s5) \<and>
      writes_of r (since s s6) = writes_of r (since s4 s5)"
    and "accesses_of Adc (since s s6) = accesses_of Adc (since s s1)"
    and "accesses_of Dac (since s s6) = accesses_of Dac (since s3 s4)"
    and "accesses_of Gpt (since s s6) = accesses_of Gpt (since s4 s5)"
    and "accesses_of (Spi 0) (since s s6) = accesses_of (Spi 0) (since s1 s2)"
    and "accesses_of (Spi 1) (since s s6) = accesses_of (Spi 1) (since s2 s3)"
proof -
  note whole = timer7_since [OF assms]
  have u1: "units (since s s1) = [Adc, Adc, Adc, Adc]"
    unfolding assms by (rule adc_units)
  have u2: "set (units (since s1 s2)) \<subseteq> {Spi 0}"
    unfolding assms by (rule spi0_units)
  have u3: "set (units (since s2 s3)) \<subseteq> {Spi 1}"
    unfolding assms by (rule spi1_units)
  have u4: "units (since s3 s4) = [Dac]"
    unfolding assms by (rule dac_units)
  have u5: "units (since s4 s5) = [Gpt, Gpt, Gpt, Gpt]"
    unfolding assms by (rule pwm_units)
  have u6: "units (since s5 s6) = []"
    unfolding assms by (rule count_units)
  have n1: "p \<noteq> Adc \<Longrightarrow> p \<notin> set (units (since s s1))" for p
    by (simp add: u1)
  have n2: "p \<noteq> Spi 0 \<Longrightarrow> p \<notin> set (units (since s1 s2))" for p
    using u2 by auto
  have n3: "p \<noteq> Spi 1 \<Longrightarrow> p \<notin> set (units (since s2 s3))" for p
    using u3 by auto
  have n4: "p \<noteq> Dac \<Longrightarrow> p \<notin> set (units (since s3 s4))" for p
    by (simp add: u4)
  have n5: "p \<noteq> Gpt \<Longrightarrow> p \<notin> set (units (since s4 s5))" for p
    by (simp add: u5)
  have n6: "p \<notin> set (units (since s5 s6))" for p
    by (simp add: u6)
  show "unit_of r = Some Adc \<Longrightarrow>
      reads_of r (since s s6) = reads_of r (since s s1) \<and>
      writes_of r (since s s6) = writes_of r (since s s1)"
    by (simp add: whole(2) untouched [OF _ n2] untouched [OF _ n3] untouched [OF _ n4]
        untouched [OF _ n5] untouched [OF _ n6])
  show "unit_of r = Some (Spi 0) \<Longrightarrow>
      reads_of r (since s s6) = reads_of r (since s1 s2) \<and>
      writes_of r (since s s6) = writes_of r (since s1 s2)"
    by (simp add: whole(2) untouched [OF _ n1] untouched [OF _ n3] untouched [OF _ n4]
        untouched [OF _ n5] untouched [OF _ n6])
  show "unit_of r = Some (Spi 1) \<Longrightarrow>
      reads_of r (since s s6) = reads_of r (since s2 s3) \<and>
      writes_of r (since s s6) = writes_of r (since s2 s3)"
    by (simp add: whole(2) untouched [OF _ n1] untouched [OF _ n2] untouched [OF _ n4]
        untouched [OF _ n5] untouched [OF _ n6])
  show "unit_of r = Some Dac \<Longrightarrow>
      reads_of r (since s s6) = reads_of r (since s3 s4) \<and>
      writes_of r (since s s6) = writes_of r (since s3 s4)"
    by (simp add: whole(2) untouched [OF _ n1] untouched [OF _ n2] untouched [OF _ n3]
        untouched [OF _ n5] untouched [OF _ n6])
  show "unit_of r = Some Gpt \<Longrightarrow>
      reads_of r (since s s6) = reads_of r (since s4 s5) \<and>
      writes_of r (since s s6) = writes_of r (since s4 s5)"
    by (simp add: whole(2) untouched [OF _ n1] untouched [OF _ n2] untouched [OF _ n3]
        untouched [OF _ n4] untouched [OF _ n6])
  show "accesses_of Adc (since s s6) = accesses_of Adc (since s s1)"
    by (simp add: whole(2) no_accesses n2 n3 n4 n5 n6)
  show "accesses_of Dac (since s s6) = accesses_of Dac (since s3 s4)"
    by (simp add: whole(2) no_accesses n1 n2 n3 n5 n6)
  show "accesses_of Gpt (since s s6) = accesses_of Gpt (since s4 s5)"
    by (simp add: whole(2) no_accesses n1 n2 n3 n4 n6)
  show "accesses_of (Spi 0) (since s s6) = accesses_of (Spi 0) (since s1 s2)"
    by (simp add: whole(2) no_accesses n1 n3 n4 n5 n6)
  show "accesses_of (Spi 1) (since s s6) = accesses_of (Spi 1) (since s2 s3)"
    by (simp add: whole(2) no_accesses n1 n2 n4 n5 n6)
qed

subsection \<open>The PWM duty cycle\<close>

lemma unat_ucast_16_32: "unat (ucast y :: 32 word) = unat y" for y :: "16 word"
proof -
  have "unat y < 2 ^ 16"
    using unsigned_less [of y] by simp
  then have "unat y < 2 ^ 32"
    by simp
  then show ?thesis
    by (simp add: unsigned_ucast_eq take_bit_nat_eq_self)
qed

lemma clamp_range:
  fixes x :: "16 word"
  defines "y \<equiv> (if x = 0 then 1 else if x \<ge> 0x3FF then 0x3FE else x)"
  shows "1 \<le> unat y \<and> unat y \<le> 0x3FE"
proof (cases "x = 0")
  case True
  then show ?thesis by (simp add: y_def)
next
  case nz: False
  then have pos: "1 \<le> unat x"
    by (simp add: One_nat_def Suc_le_eq unat_gt_0)
  show ?thesis
  proof (cases "x \<ge> 0x3FF")
    case True
    with nz show ?thesis by (simp add: y_def)
  next
    case False
    then have "unat x < 0x3FF"
      by (simp add: word_le_nat_alt)
    with nz False pos show ?thesis by (simp add: y_def)
  qed
qed

text \<open>
  Claim C9. Whatever the hardware returns and whatever the state at entry, one run of
  \<^verbatim>\<open>timer7interrupt\<close> writes \<^verbatim>\<open>GPT321_GTCCRD\<close> exactly once; the value is \<^verbatim>\<open>localValA1\<close>, which
  is \<^verbatim>\<open>adc_val_A1 >> 4\<close> of the reading just taken, replaced by 1 when it is 0 and by
  \<^verbatim>\<open>0x3FE\<close> when it is at least \<^verbatim>\<open>0x3FF\<close>; so the value lies in the interval from
  \<^verbatim>\<open>0x001\<close> to \<^verbatim>\<open>0x3FE\<close>, and neither \<^verbatim>\<open>0x000\<close> nor \<^verbatim>\<open>0x3FF\<close> is written.
\<close>

theorem timer7interrupt_pwm_duty_range:
  "let s' = timer7interrupt hw s;
       es = since s s';
       x = drop_bit 4 (adc_val_A1 (vars s'))
   in writes_of (GPT321 GTCCRD) es = [ucast (localValA1 (statics s'))] \<and>
      localValA1 (statics s') = (if x = 0 then 1 else if x \<ge> 0x3FF then 0x3FE else x) \<and>
      list_all (\<lambda>v. 0x001 \<le> unat v \<and> unat v \<le> 0x3FE) (writes_of (GPT321 GTCCRD) es)"
proof -
  define s1 where "s1 = timer7_adc hw s"
  define s2 where "s2 = timer7_spi0 hw s1"
  define s3 where "s3 = timer7_spi1 hw s2"
  define s4 where "s4 = timer7_dac s3"
  define s5 where "s5 = timer7_pwm s4"
  define s6 where "s6 = timer7_count s5"
  note defs = s1_def s2_def s3_def s4_def s5_def s6_def
  note whole = timer7_since [OF defs]
  obtain a1 a2 r0 r1 p i where frames:
    "vars s1 = (vars s)\<lparr>adc_val_A1 := a1, adc_val_A2 := a2\<rparr>"
    "vars s2 = (vars s1)\<lparr>spi0_received_val := r0\<rparr>"
    "vars s3 = (vars s2)\<lparr>spi1_received_val := r1\<rparr>"
    "vars s4 = (vars s3)\<lparr>phaccu0 := p, icount0 := i\<rparr>"
    "vars s5 = (vars s4)\<lparr>directionFlag := \<not> directionFlag (vars s4)\<rparr>"
    "vars s6 =
      (if loop_counter (vars s5) + 1 \<ge> LOOP_COUNT_VAL
       then (vars s5)\<lparr>loop_counter := 0, loopFlag := True\<rparr>
       else (vars s5)\<lparr>loop_counter := loop_counter (vars s5) + 1\<rparr>)"
    using timer7_frames [OF defs] by blast
  define x where "x = drop_bit 4 (adc_val_A1 (vars s6))"
  define y where "y = (if x = 0 then 1 else if x \<ge> 0x3FF then 0x3FE else x)"
  have adc: "adc_val_A1 (vars s6) = adc_val_A1 (vars s4)"
    by (simp add: frames(5,6))
  have st: "localValA1 (statics s6) = y"
    unfolding y_def x_def adc by (simp add: s6_def count_statics s5_def pwm_statics)
  have "writes_of (GPT321 GTCCRD) (since s s6) = writes_of (GPT321 GTCCRD) (since s4 s5)"
    using timer7_sections(5) [OF defs, of "GPT321 GTCCRD"] by simp
  also have "\<dots> = [ucast y]"
    unfolding y_def x_def adc by (simp add: s5_def pwm_writes)
  finally have wr: "writes_of (GPT321 GTCCRD) (since s s6) = [ucast y]" .
  have "1 \<le> unat y \<and> unat y \<le> 0x3FE"
    unfolding y_def by (rule clamp_range)
  then have range: "1 \<le> unat (ucast y :: 32 word) \<and> unat (ucast y :: 32 word) \<le> 0x3FE"
    by (simp add: unat_ucast_16_32)
  show ?thesis
    unfolding Let_def whole(1)
  proof (intro conjI)
    show "writes_of (GPT321 GTCCRD) (since s s6) = [ucast (localValA1 (statics s6))]"
      by (simp add: wr st)
    show "localValA1 (statics s6) =
        (if drop_bit 4 (adc_val_A1 (vars s6)) = 0 then 1
         else if 0x3FF \<le> drop_bit 4 (adc_val_A1 (vars s6)) then 0x3FE
         else drop_bit 4 (adc_val_A1 (vars s6)))"
      unfolding st y_def x_def by (rule refl)
    show "list_all (\<lambda>v. 0x001 \<le> unat v \<and> unat v \<le> 0x3FE)
        (writes_of (GPT321 GTCCRD) (since s s6))"
      using range by (simp add: wr)
  qed
qed

subsection \<open>The loop counter\<close>

lemma timer7_counter:
  "loop_counter (vars (timer7interrupt hw s)) =
     (if LOOP_COUNT_VAL \<le> loop_counter (vars s) + 1 then 0 else loop_counter (vars s) + 1)"
  "loopFlag (vars (timer7interrupt hw s)) =
     (LOOP_COUNT_VAL \<le> loop_counter (vars s) + 1 \<or> loopFlag (vars s))"
proof -
  define s1 where "s1 = timer7_adc hw s"
  define s2 where "s2 = timer7_spi0 hw s1"
  define s3 where "s3 = timer7_spi1 hw s2"
  define s4 where "s4 = timer7_dac s3"
  define s5 where "s5 = timer7_pwm s4"
  define s6 where "s6 = timer7_count s5"
  note defs = s1_def s2_def s3_def s4_def s5_def s6_def
  note whole = timer7_since [OF defs]
  obtain a1 a2 r0 r1 p i where frames:
    "vars s1 = (vars s)\<lparr>adc_val_A1 := a1, adc_val_A2 := a2\<rparr>"
    "vars s2 = (vars s1)\<lparr>spi0_received_val := r0\<rparr>"
    "vars s3 = (vars s2)\<lparr>spi1_received_val := r1\<rparr>"
    "vars s4 = (vars s3)\<lparr>phaccu0 := p, icount0 := i\<rparr>"
    "vars s5 = (vars s4)\<lparr>directionFlag := \<not> directionFlag (vars s4)\<rparr>"
    "vars s6 =
      (if loop_counter (vars s5) + 1 \<ge> LOOP_COUNT_VAL
       then (vars s5)\<lparr>loop_counter := 0, loopFlag := True\<rparr>
       else (vars s5)\<lparr>loop_counter := loop_counter (vars s5) + 1\<rparr>)"
    using timer7_frames [OF defs] by blast
  have c: "loop_counter (vars s5) = loop_counter (vars s)"
    and f: "loopFlag (vars s5) = loopFlag (vars s)"
    by (simp_all add: frames(1-5))
  show "loop_counter (vars (timer7interrupt hw s)) =
     (if LOOP_COUNT_VAL \<le> loop_counter (vars s) + 1 then 0 else loop_counter (vars s) + 1)"
    by (simp add: whole(1) frames(6) c)
  show "loopFlag (vars (timer7interrupt hw s)) =
     (LOOP_COUNT_VAL \<le> loop_counter (vars s) + 1 \<or> loopFlag (vars s))"
    by (simp add: whole(1) frames(6) c f)
qed

lemma count_step:
  fixes c :: "16 word"
  assumes "unat c < 24000"
  shows "(LOOP_COUNT_VAL \<le> c + 1) = (unat c + 1 = 24000)"
    and "unat (if LOOP_COUNT_VAL \<le> c + 1 then 0 else c + 1) = (unat c + 1) mod 24000"
proof -
  from assms have suc: "unat (c + 1) = unat c + 1"
    by (simp add: unat_word_ariths)
  with assms show le: "(LOOP_COUNT_VAL \<le> c + 1) = (unat c + 1 = 24000)"
    by (auto simp add: LOOP_COUNT_VAL_def word_le_nat_alt)
  from assms show "unat (if LOOP_COUNT_VAL \<le> c + 1 then 0 else c + 1) = (unat c + 1) mod 24000"
    unfolding le by (auto simp add: suc)
qed

lemma count_bound:
  fixes c :: "16 word"
  shows "unat (if LOOP_COUNT_VAL \<le> c + 1 then 0 else c + 1) < 24000"
  by (auto simp add: LOOP_COUNT_VAL_def word_le_nat_alt)

lemma wrap_iff:
  fixes n k :: nat
  assumes "0 < k"
  shows "(n mod k + 1 = k) = ((n + 1) mod k = 0)"
proof -
  have less: "n mod k < k"
    using assms by simp
  have "(n + 1) mod k = (n mod k + 1) mod k"
    by (simp add: mod_Suc_eq)
  also have "(\<dots> = 0) = (n mod k + 1 = k)"
  proof (cases "n mod k + 1 = k")
    case True
    then show ?thesis by simp
  next
    case False
    with less have "n mod k + 1 < k"
      by simp
    then have "(n mod k + 1) mod k = n mod k + 1"
      by (rule mod_less)
    with False show ?thesis by simp
  qed
  finally show ?thesis
    by simp
qed

lemma timer7_run_counter:
  "unat (loop_counter (vars s)) < 24000 \<Longrightarrow>
   unat (loop_counter (vars (timer7_run hws s))) =
     (unat (loop_counter (vars s)) + length hws) mod 24000"
proof (induction hws arbitrary: s)
  case Nil
  then show ?case by simp
next
  case (Cons hw hws)
  let ?t = "timer7interrupt hw s"
  have step: "unat (loop_counter (vars ?t)) = (unat (loop_counter (vars s)) + 1) mod 24000"
    using count_step(2) [OF Cons.prems] by (simp add: timer7_counter)
  then have "unat (loop_counter (vars ?t)) < 24000"
    by simp
  then have "unat (loop_counter (vars (timer7_run hws ?t))) =
      (unat (loop_counter (vars ?t)) + length hws) mod 24000"
    by (rule Cons.IH)
  then show ?case
    by (simp add: step mod_add_left_eq One_nat_def)
qed

text \<open>
  Claim C10. After every run of \<^verbatim>\<open>timer7interrupt\<close> the counter is below 24000. A run sets
  \<^verbatim>\<open>loopFlag\<close> exactly when the incremented counter is at least \<^verbatim>\<open>LOOP_COUNT_VAL\<close>, and then
  resets the counter to 0; it never clears the flag. From a counter below 24000 the
  incremented counter is at least 24000 exactly when it is 24000. Starting from a counter
  of 0, after \<open>n\<close> interrupts the counter is \<open>n mod 24000\<close>, and the next interrupt raises
  a cleared flag exactly when its number \<open>n + 1\<close> is a multiple of 24000.
\<close>

theorem loop_counter_wraps_at_24000:
  "unat (loop_counter (vars (timer7interrupt hw s))) < 24000 \<and>
   loop_counter (vars (timer7interrupt hw s)) =
     (if LOOP_COUNT_VAL \<le> loop_counter (vars s) + 1 then 0 else loop_counter (vars s) + 1) \<and>
   loopFlag (vars (timer7interrupt hw s)) =
     (LOOP_COUNT_VAL \<le> loop_counter (vars s) + 1 \<or> loopFlag (vars s)) \<and>
   (unat (loop_counter (vars s)) < 24000 \<longrightarrow>
      (LOOP_COUNT_VAL \<le> loop_counter (vars s) + 1) = (unat (loop_counter (vars s)) + 1 = 24000)) \<and>
   (loop_counter (vars s) = 0 \<longrightarrow>
      unat (loop_counter (vars (timer7_run hws s))) = length hws mod 24000 \<and>
      loopFlag (vars (timer7interrupt hw
        ((timer7_run hws s)\<lparr>vars := (vars (timer7_run hws s))\<lparr>loopFlag := False\<rparr>\<rparr>))) =
        ((length hws + 1) mod 24000 = 0))"
proof (intro conjI impI)
  show "unat (loop_counter (vars (timer7interrupt hw s))) < 24000"
    unfolding timer7_counter by (rule count_bound)
  show "loop_counter (vars (timer7interrupt hw s)) =
     (if LOOP_COUNT_VAL \<le> loop_counter (vars s) + 1 then 0 else loop_counter (vars s) + 1)"
    by (rule timer7_counter)
  show "loopFlag (vars (timer7interrupt hw s)) =
     (LOOP_COUNT_VAL \<le> loop_counter (vars s) + 1 \<or> loopFlag (vars s))"
    by (rule timer7_counter)
next
  assume "unat (loop_counter (vars s)) < 24000"
  then show "(LOOP_COUNT_VAL \<le> loop_counter (vars s) + 1) =
      (unat (loop_counter (vars s)) + 1 = 24000)"
    by (rule count_step)
next
  assume zero: "loop_counter (vars s) = 0"
  then have inv: "unat (loop_counter (vars s)) < 24000"
    by simp
  show run: "unat (loop_counter (vars (timer7_run hws s))) = length hws mod 24000"
    using timer7_run_counter [OF inv, of hws] by (simp add: zero)
  let ?r = "timer7_run hws s"
  have below: "unat (loop_counter (vars ?r)) < 24000"
    by (simp add: run)
  have "loopFlag (vars (timer7interrupt hw (?r\<lparr>vars := (vars ?r)\<lparr>loopFlag := False\<rparr>\<rparr>))) =
      (unat (loop_counter (vars ?r)) + 1 = 24000)"
    using count_step(1) [OF below] by (simp add: timer7_counter)
  also have "\<dots> = ((length hws + 1) mod 24000 = 0)"
    unfolding run by (rule wrap_iff) simp
  finally show "loopFlag (vars (timer7interrupt hw
        (?r\<lparr>vars := (vars ?r)\<lparr>loopFlag := False\<rparr>\<rparr>))) = ((length hws + 1) mod 24000 = 0)" .
qed

theorem loop_counter_wraps_at_24000_witness:
  "unat (loop_counter (vars power_on)) < 24000 \<and>
   loop_counter (vars power_on) = 0 \<and>
   unat (loop_counter (vars (timer7interrupt quiet power_on))) < 24000 \<and>
   unat (loop_counter (vars (timer7_run (replicate 23999 quiet) power_on))) = 23999 \<and>
   loopFlag (vars (timer7interrupt quiet
     ((timer7_run (replicate 23999 quiet) power_on)
        \<lparr>vars := (vars (timer7_run (replicate 23999 quiet) power_on))\<lparr>loopFlag := False\<rparr>\<rparr>)))"
  using loop_counter_wraps_at_24000 [of quiet power_on "replicate 23999 quiet"]
  by (simp add: power_on_def)

subsection \<open>The DAC value\<close>

lemma timer7_adc_val:
  "adc_val_A1 (vars (timer7interrupt hw s)) =
     ucast (bus_read hw (Suc (length (trace s))) ADC140_ADDR00 (regs s ADC140_ADDR00))"
proof -
  define s1 where "s1 = timer7_adc hw s"
  define s2 where "s2 = timer7_spi0 hw s1"
  define s3 where "s3 = timer7_spi1 hw s2"
  define s4 where "s4 = timer7_dac s3"
  define s5 where "s5 = timer7_pwm s4"
  define s6 where "s6 = timer7_count s5"
  note defs = s1_def s2_def s3_def s4_def s5_def s6_def
  note whole = timer7_since [OF defs]
  obtain a1 a2 r0 r1 p i where frames:
    "vars s1 = (vars s)\<lparr>adc_val_A1 := a1, adc_val_A2 := a2\<rparr>"
    "vars s2 = (vars s1)\<lparr>spi0_received_val := r0\<rparr>"
    "vars s3 = (vars s2)\<lparr>spi1_received_val := r1\<rparr>"
    "vars s4 = (vars s3)\<lparr>phaccu0 := p, icount0 := i\<rparr>"
    "vars s5 = (vars s4)\<lparr>directionFlag := \<not> directionFlag (vars s4)\<rparr>"
    "vars s6 =
      (if loop_counter (vars s5) + 1 \<ge> LOOP_COUNT_VAL
       then (vars s5)\<lparr>loop_counter := 0, loopFlag := True\<rparr>
       else (vars s5)\<lparr>loop_counter := loop_counter (vars s5) + 1\<rparr>)"
    using timer7_frames [OF defs] by blast
  have "adc_val_A1 (vars s6) = adc_val_A1 (vars s1)"
    by (simp add: frames(2-6))
  also have "\<dots> = ucast (bus_read hw (Suc (length (trace s))) ADC140_ADDR00 (regs s ADC140_ADDR00))"
    by (simp add: s1_def timer7_adc_def prims Let_def)
  finally show ?thesis
    by (simp add: whole(1))
qed

lemma unat_phase:
  fixes p t :: "32 word"
  shows "unat (ucast (ucast (drop_bit 20 (p + t)) :: 16 word) :: 32 word) =
      ((unat p + unat t) mod 2 ^ 32) div 2 ^ 20"
    and "((unat p + unat t) mod 2 ^ 32) div 2 ^ 20 < 4096"
proof -
  have "(unat p + unat t) mod 2 ^ 32 < (2 ^ 32 :: nat)"
    by simp
  then have "((unat p + unat t) mod 2 ^ 32) div 2 ^ 20 < (2 ^ 32 :: nat) div 2 ^ 20"
    by (simp add: div_less_iff_less_mult del: mod_less_divisor)
  then show small: "((unat p + unat t) mod 2 ^ 32) div 2 ^ 20 < 4096"
    by simp
  have "unat (drop_bit 20 (p + t)) = ((unat p + unat t) mod 2 ^ 32) div 2 ^ 20"
    by (simp add: unat_drop_bit_eq drop_bit_eq_div unat_word_ariths)
  with small have "unat (ucast (drop_bit 20 (p + t)) :: 16 word) =
      ((unat p + unat t) mod 2 ^ 32) div 2 ^ 20"
    by (simp add: unsigned_ucast_eq take_bit_nat_eq_self)
  then show "unat (ucast (ucast (drop_bit 20 (p + t)) :: 16 word) :: 32 word) =
      ((unat p + unat t) mod 2 ^ 32) div 2 ^ 20"
    by (simp add: unat_ucast_16_32)
qed

lemma unat_knob:
  fixes a :: "16 word"
  shows "unat (ucast (drop_bit 2 a) :: 32 word) = unat a div 2 ^ 2"
  by (simp add: unat_ucast_16_32 unat_drop_bit_eq drop_bit_eq_div unat_div)

text \<open>
  Claim C6. One run of \<^verbatim>\<open>timer7interrupt\<close> writes \<^verbatim>\<open>DAC12_DADR0\<close> exactly once. When \<^verbatim>\<open>sineFlag\<close>
  is true the value is \<^verbatim>\<open>(phaccu0 + tword_m0) mod 2^32\<close> shifted right by 20 bits, of the
  values at entry; otherwise it is \<^verbatim>\<open>adc_val_A1 >> 2\<close> of the reading which this run took
  from \<^verbatim>\<open>ADC140_ADDR00\<close>. The value is below 4096 when \<^verbatim>\<open>sineFlag\<close> is true, and also when
  the reading is below 16384.
\<close>

theorem timer7interrupt_dac_value_12_bit:
  "let s' = timer7interrupt hw s;
       es = since s s'
   in map unat (writes_of DAC12_DADR0 es) =
        [if sineFlag (vars s)
         then ((unat (phaccu0 (vars s)) + unat (tword_m0 (vars s))) mod 2 ^ 32) div 2 ^ 20
         else unat (adc_val_A1 (vars s')) div 2 ^ 2] \<and>
      reads_of ADC140_ADDR00 es = [ucast (adc_val_A1 (vars s'))] \<and>
      (sineFlag (vars s) \<or> unat (adc_val_A1 (vars s')) < 16384 \<longrightarrow>
         list_all (\<lambda>v. unat v < 4096) (writes_of DAC12_DADR0 es))"
proof -
  define s1 where "s1 = timer7_adc hw s"
  define s2 where "s2 = timer7_spi0 hw s1"
  define s3 where "s3 = timer7_spi1 hw s2"
  define s4 where "s4 = timer7_dac s3"
  define s5 where "s5 = timer7_pwm s4"
  define s6 where "s6 = timer7_count s5"
  note defs = s1_def s2_def s3_def s4_def s5_def s6_def
  note whole = timer7_since [OF defs]
  obtain a1 a2 r0 r1 p i where frames:
    "vars s1 = (vars s)\<lparr>adc_val_A1 := a1, adc_val_A2 := a2\<rparr>"
    "vars s2 = (vars s1)\<lparr>spi0_received_val := r0\<rparr>"
    "vars s3 = (vars s2)\<lparr>spi1_received_val := r1\<rparr>"
    "vars s4 = (vars s3)\<lparr>phaccu0 := p, icount0 := i\<rparr>"
    "vars s5 = (vars s4)\<lparr>directionFlag := \<not> directionFlag (vars s4)\<rparr>"
    "vars s6 =
      (if loop_counter (vars s5) + 1 \<ge> LOOP_COUNT_VAL
       then (vars s5)\<lparr>loop_counter := 0, loopFlag := True\<rparr>
       else (vars s5)\<lparr>loop_counter := loop_counter (vars s5) + 1\<rparr>)"
    using timer7_frames [OF defs] by blast
  have entry: "sineFlag (vars s3) = sineFlag (vars s)" "phaccu0 (vars s3) = phaccu0 (vars s)"
    "tword_m0 (vars s3) = tword_m0 (vars s)"
    by (simp_all add: frames(1-3))
  have adc3: "adc_val_A1 (vars s3) = adc_val_A1 (vars s6)"
    and adc1: "adc_val_A1 (vars s1) = adc_val_A1 (vars s6)"
    by (simp_all add: frames(2-6))
  have "writes_of DAC12_DADR0 (since s s6) = writes_of DAC12_DADR0 (since s3 s4)"
    using timer7_sections(4) [OF defs, of DAC12_DADR0] by simp
  also have "\<dots> =
      [if sineFlag (vars s)
       then ucast (ucast (drop_bit 20 (phaccu0 (vars s) + tword_m0 (vars s))) :: 16 word)
       else ucast (drop_bit 2 (adc_val_A1 (vars s6)))]"
    unfolding s4_def dac_writes entry adc3 by (rule refl)
  finally have wr: "map unat (writes_of DAC12_DADR0 (since s s6)) =
      [if sineFlag (vars s)
       then ((unat (phaccu0 (vars s)) + unat (tword_m0 (vars s))) mod 2 ^ 32) div 2 ^ 20
       else unat (adc_val_A1 (vars s6)) div 2 ^ 2]"
    by (simp add: unat_phase(1) unat_knob)
  have "reads_of ADC140_ADDR00 (since s s6) = reads_of ADC140_ADDR00 (since s s1)"
    using timer7_sections(1) [OF defs, of ADC140_ADDR00] by simp
  also have "\<dots> = [ucast (adc_val_A1 (vars s6))]"
    unfolding adc1 [symmetric] s1_def by (rule adc_reads)
  finally have rd: "reads_of ADC140_ADDR00 (since s s6) = [ucast (adc_val_A1 (vars s6))]" .
  have "list_all (\<lambda>n. n < 4096) (map unat (writes_of DAC12_DADR0 (since s s6)))"
    if assms: "sineFlag (vars s) \<or> unat (adc_val_A1 (vars s6)) < 16384"
  proof (cases "sineFlag (vars s)")
    case True
    then show ?thesis
      unfolding wr using unat_phase(2) by simp
  next
    case False
    with assms have "unat (adc_val_A1 (vars s6)) < 16384"
      by simp
    then have "unat (adc_val_A1 (vars s6)) div 2 ^ 2 < 4096"
      by simp
    with False show ?thesis
      unfolding wr by simp
  qed
  then have small: "list_all (\<lambda>v. unat v < 4096) (writes_of DAC12_DADR0 (since s s6))"
    if "sineFlag (vars s) \<or> unat (adc_val_A1 (vars s6)) < 16384"
    using that by (simp add: list_all_iff)
  show ?thesis
    unfolding Let_def whole(1) using wr rd small by blast
qed

theorem timer7interrupt_dac_value_12_bit_witness:
  "(sineFlag (vars (power_on\<lparr>vars := (vars power_on)\<lparr>sineFlag := False\<rparr>\<rparr>)) \<or>
    unat (adc_val_A1 (vars (timer7interrupt (adc_reading 0x2ABC)
      (power_on\<lparr>vars := (vars power_on)\<lparr>sineFlag := False\<rparr>\<rparr>)))) < 16384) \<and>
   map unat (writes_of DAC12_DADR0
     (since (power_on\<lparr>vars := (vars power_on)\<lparr>sineFlag := False\<rparr>\<rparr>)
       (timer7interrupt (adc_reading 0x2ABC)
         (power_on\<lparr>vars := (vars power_on)\<lparr>sineFlag := False\<rparr>\<rparr>)))) = [0xAAF] \<and>
   list_all (\<lambda>v. unat v < 4096) (writes_of DAC12_DADR0
     (since (power_on\<lparr>vars := (vars power_on)\<lparr>sineFlag := False\<rparr>\<rparr>)
       (timer7interrupt (adc_reading 0x2ABC)
         (power_on\<lparr>vars := (vars power_on)\<lparr>sineFlag := False\<rparr>\<rparr>))))"
proof -
  let ?s = "power_on\<lparr>vars := (vars power_on)\<lparr>sineFlag := False\<rparr>\<rparr>"
  have adc: "adc_val_A1 (vars (timer7interrupt (adc_reading 0x2ABC) ?s)) = 0x2ABC"
    by (simp add: timer7_adc_val bus_read_def adc_reading_def)
  then have h: "sineFlag (vars ?s) \<or>
      unat (adc_val_A1 (vars (timer7interrupt (adc_reading 0x2ABC) ?s))) < 16384"
    by simp
  show ?thesis
    using timer7interrupt_dac_value_12_bit [of "adc_reading 0x2ABC" ?s] h
    by (simp add: Let_def adc)
qed

subsection \<open>The order of the phases\<close>

lemma adc_accesses:
  "accesses_of Adc (since s (timer7_adc hw s)) =
     [(False, ADC140_ADDR00), (False, ADC140_ADDR01), (False, ADC140_ADCSR), (True, ADC140_ADCSR)]"
  by (simp add: timer7_adc_def prims Let_def since_def)

lemma start_bit: "bit (ucast (v OR push_bit 15 1) :: 32 word) 15" for v :: "16 word"
  by (simp add: bit_simps)

lemma adc_start:
  "list_all (\<lambda>v. bit v 15) (writes_of ADC140_ADCSR (since s (timer7_adc hw s)))"
  using start_bit by (simp add: timer7_adc_def prims Let_def since_def del: push_bit_of_1)

lemma dac_accesses: "accesses_of Dac (since s (timer7_dac s)) = [(True, DAC12_DADR0)]"
  by (simp add: timer7_dac_def prims Let_def since_def)

lemma pwm_accesses:
  "accesses_of Gpt (since s (timer7_pwm s)) =
     [(True, GPT321 GTCCRC), (True, GPT321 GTCCRD), (True, GPT167 GTCCRC), (True, GPT167 GTCCRD)]"
  by (simp add: timer7_pwm_def clamp_A1 clamp_A2 pwm_duty_def pwm_direction_def prims Let_def
      since_def)

lemma flag5: "(f AND 0x20 = 0x20) = bit f 5" for f :: "8 word"
  using flag_exp [of 5 f] by simp

lemma flag2: "(f AND 0x04 = 0x04) = bit f 2" for f :: "8 word"
  using flag_exp [of 2 f] by simp

lemma flag_ucast: "bit (ucast f :: 32 word) n = bit f n" if "n < 8" for f :: "8 word"
  using that by (simp add: bit_ucast_iff)

lemma flags_accesses:
  "accesses_of (Spi 0) (since s (spi0_flags hw s)) =
     [(False, SPI0_SPSR), (True, SPI0_SPSR), (False, SPI0_SPSR), (True, SPI0_SPSR)]"
  "writes_of SPI0_SPDR (since s (spi0_flags hw s)) = []"
  by (simp_all add: spi0_flags_def prims Let_def since_def)

lemma receive_accesses:
  "\<exists>f. reads_of SPI0_SPSR (since s (spi0_receive hw s)) = [f] \<and>
     accesses_of (Spi 0) (since s (spi0_receive hw s)) =
       (False, SPI0_SPSR) # (if bit f 7 then [(False, SPI0_SPDR)] else []) \<and>
     reads_of SPI0_SPDR (since s (spi0_receive hw s)) =
       (if bit f 7 then [spi0_received_val (vars (spi0_receive hw s))] else []) \<and>
     writes_of SPI0_SPDR (since s (spi0_receive hw s)) = []"
proof -
  define f where "f = (ucast (bus_read hw (length (trace s)) SPI0_SPSR (regs s SPI0_SPSR)) :: 8 word)"
  have "reads_of SPI0_SPSR (since s (spi0_receive hw s)) = [ucast f]"
    by (simp add: spi0_receive_def prims Let_def since_def f_def)
  moreover have "accesses_of (Spi 0) (since s (spi0_receive hw s)) =
       (False, SPI0_SPSR) # (if bit f 7 then [(False, SPI0_SPDR)] else [])"
    by (simp add: spi0_receive_def prims Let_def since_def f_def flag7)
  moreover have "reads_of SPI0_SPDR (since s (spi0_receive hw s)) =
       (if bit f 7 then [spi0_received_val (vars (spi0_receive hw s))] else [])"
    by (simp add: spi0_receive_def prims Let_def since_def f_def flag7)
  moreover have "writes_of SPI0_SPDR (since s (spi0_receive hw s)) = []"
    by (simp add: spi0_receive_def prims Let_def since_def)
  ultimately show ?thesis
    by (intro exI [of _ "ucast f"]) (simp add: flag_ucast)
qed

lemma transmit_accesses:
  "\<exists>f. reads_of SPI0_SPSR (since s (spi0_transmit hw s)) = [f] \<and>
     accesses_of (Spi 0) (since s (spi0_transmit hw s)) =
       (False, SPI0_SPSR) # (if bit f 5 then [(True, SPI0_SPDR)] else []) \<and>
     writes_of SPI0_SPDR (since s (spi0_transmit hw s)) =
       (if bit f 5 then [ucast (adc_val_A1 (vars s))] else [])"
proof -
  define f where "f = (ucast (bus_read hw (length (trace s)) SPI0_SPSR (regs s SPI0_SPSR)) :: 8 word)"
  have "reads_of SPI0_SPSR (since s (spi0_transmit hw s)) = [ucast f]"
    by (simp add: spi0_transmit_def prims Let_def since_def f_def)
  moreover have "accesses_of (Spi 0) (since s (spi0_transmit hw s)) =
       (False, SPI0_SPSR) # (if bit f 5 then [(True, SPI0_SPDR)] else [])"
    by (simp add: spi0_transmit_def prims Let_def since_def f_def flag5)
  moreover have "writes_of SPI0_SPDR (since s (spi0_transmit hw s)) =
       (if bit f 5 then [ucast (adc_val_A1 (vars s))] else [])"
    by (simp add: spi0_transmit_def prims Let_def since_def f_def flag5)
  ultimately show ?thesis
    by (intro exI [of _ "ucast f"]) (simp add: flag_ucast)
qed

lemma fault_accesses:
  "\<exists>f fs. reads_of SPI0_SPSR (since s (spi0_fault hw s)) = f # fs \<and>
     accesses_of (Spi 0) (since s (spi0_fault hw s)) =
       (False, SPI0_SPSR) # (if bit f 2 then [(False, SPI0_SPSR), (True, SPI0_SPSR)] else []) \<and>
     writes_of SPI0_SPDR (since s (spi0_fault hw s)) = []"
proof -
  define f where "f = (ucast (bus_read hw (length (trace s)) SPI0_SPSR (regs s SPI0_SPSR)) :: 8 word)"
  have "reads_of SPI0_SPSR (since s (spi0_fault hw s)) =
      ucast f # tl (reads_of SPI0_SPSR (since s (spi0_fault hw s)))"
    by (simp add: spi0_fault_def prims Let_def since_def f_def)
  moreover have "accesses_of (Spi 0) (since s (spi0_fault hw s)) =
       (False, SPI0_SPSR) # (if bit f 2 then [(False, SPI0_SPSR), (True, SPI0_SPSR)] else [])"
    by (simp add: spi0_fault_def prims Let_def since_def f_def flag2)
  moreover have "writes_of SPI0_SPDR (since s (spi0_fault hw s)) = []"
    by (simp add: spi0_fault_def prims Let_def since_def)
  ultimately show ?thesis
    by (intro exI [of _ "ucast f"]
        exI [of _ "tl (reads_of SPI0_SPSR (since s (spi0_fault hw s)))"])
      (simp add: flag_ucast)
qed

lemma spi0_accesses:
  "let es = since s (timer7_spi0 hw s);
       fs = reads_of SPI0_SPSR es
   in 5 \<le> length fs \<and>
      accesses_of (Spi 0) es =
        [(False, SPI0_SPSR), (True, SPI0_SPSR), (False, SPI0_SPSR), (True, SPI0_SPSR)] @
        (False, SPI0_SPSR) # (if bit (fs ! 2) 7 then [(False, SPI0_SPDR)] else []) @
        (False, SPI0_SPSR) # (if bit (fs ! 3) 5 then [(True, SPI0_SPDR)] else []) @
        (False, SPI0_SPSR) #
        (if bit (fs ! 4) 2 then [(False, SPI0_SPSR), (True, SPI0_SPSR)] else []) \<and>
      reads_of SPI0_SPDR es =
        (if bit (fs ! 2) 7 then [spi0_received_val (vars (timer7_spi0 hw s))] else []) \<and>
      writes_of SPI0_SPDR es = (if bit (fs ! 3) 5 then [ucast (adc_val_A1 (vars s))] else [])"
proof -
  let ?a = "spi0_flags hw s"
  let ?b = "spi0_receive hw ?a"
  let ?c = "spi0_transmit hw ?b"
  let ?e = "spi0_fault hw ?c"
  have e: "timer7_spi0 hw s = ?e"
    by (simp add: timer7_spi0_def)
  obtain p q where pre: "reads_of SPI0_SPSR (since s ?a) = [p, q]"
    using flags_reads(1) [of s hw] by (auto simp add: length_Suc_conv numeral_2_eq_2)
  obtain f1 where rx:
    "reads_of SPI0_SPSR (since ?a ?b) = [f1]"
    "accesses_of (Spi 0) (since ?a ?b) =
       (False, SPI0_SPSR) # (if bit f1 7 then [(False, SPI0_SPDR)] else [])"
    "reads_of SPI0_SPDR (since ?a ?b) = (if bit f1 7 then [spi0_received_val (vars ?b)] else [])"
    "writes_of SPI0_SPDR (since ?a ?b) = []"
    using receive_accesses [of ?a hw] by blast
  obtain f2 where tx:
    "reads_of SPI0_SPSR (since ?b ?c) = [f2]"
    "accesses_of (Spi 0) (since ?b ?c) =
       (False, SPI0_SPSR) # (if bit f2 5 then [(True, SPI0_SPDR)] else [])"
    "writes_of SPI0_SPDR (since ?b ?c) = (if bit f2 5 then [ucast (adc_val_A1 (vars ?b))] else [])"
    using transmit_accesses [of ?b hw] by blast
  obtain f3 fs where mf:
    "reads_of SPI0_SPSR (since ?c ?e) = f3 # fs"
    "accesses_of (Spi 0) (since ?c ?e) =
       (False, SPI0_SPSR) # (if bit f3 2 then [(False, SPI0_SPSR), (True, SPI0_SPSR)] else [])"
    "writes_of SPI0_SPDR (since ?c ?e) = []"
    using fault_accesses [of ?c hw] by blast
  have rd: "reads_of SPI0_SPSR (since s (timer7_spi0 hw s)) = [p, q, f1, f2, f3] @ fs"
    by (simp add: spi0_since [of s hw] pre rx(1) tx(1) mf(1))
  have n: "([p, q, f1, f2, f3] @ fs) ! 2 = f1" "([p, q, f1, f2, f3] @ fs) ! 3 = f2"
    "([p, q, f1, f2, f3] @ fs) ! 4 = f3"
    by simp_all
  have val: "spi0_received_val (vars ?b) = spi0_received_val (vars (timer7_spi0 hw s))"
    by (simp add: e fault_vars transmit_vars)
  have adc: "adc_val_A1 (vars ?b) = adc_val_A1 (vars s)"
    using receive_spec [of ?a hw] by (auto simp add: flags_vars)
  have acc: "accesses_of (Spi 0) (since s (timer7_spi0 hw s)) =
        [(False, SPI0_SPSR), (True, SPI0_SPSR), (False, SPI0_SPSR), (True, SPI0_SPSR)] @
        (False, SPI0_SPSR) # (if bit f1 7 then [(False, SPI0_SPDR)] else []) @
        (False, SPI0_SPSR) # (if bit f2 5 then [(True, SPI0_SPDR)] else []) @
        (False, SPI0_SPSR) #
        (if bit f3 2 then [(False, SPI0_SPSR), (True, SPI0_SPSR)] else [])"
    by (simp only: spi0_since [of s hw] accesses_of_append flags_accesses(1) rx(2) tx(2) mf(2))
      simp
  have rds: "reads_of SPI0_SPDR (since s (timer7_spi0 hw s)) =
        (if bit f1 7 then [spi0_received_val (vars (timer7_spi0 hw s))] else [])"
    by (simp add: spi0_since [of s hw] flags_reads(2) rx(3) transmit_reads(2) fault_reads(2) val)
  have wrs: "writes_of SPI0_SPDR (since s (timer7_spi0 hw s)) =
        (if bit f2 5 then [ucast (adc_val_A1 (vars s))] else [])"
    by (simp add: spi0_since [of s hw] flags_accesses(2) rx(4) tx(3) mf(3) adc)
  show ?thesis
    unfolding Let_def rd n using acc rds wrs by simp
qed

lemma send_order:
  "accesses_of (Spi 1) (since s (spi1_send hw s)) =
     [(False, SPI1_SPSR), (True, SPI1_SPSR), (False, SPI1_SPSR), (True, SPI1_SPSR),
      (False, SPI1_SPDR), (True, SPI1_SPDR)]"
  by (simp add: spi1_send_def prims Let_def since_def)

lemma poll_accesses:
  "accesses_of (Spi 1) (since s (spi1_poll hw i s)) =
     replicate (length (reads_of SPI1_SPSR (since s (spi1_poll hw i s)))) (False, SPI1_SPSR) @
     (if list_ex (\<lambda>v. bit v 7) (reads_of SPI1_SPSR (since s (spi1_poll hw i s)))
      then [(False, SPI1_SPDR)] else []) \<and>
   (i < 16 \<longrightarrow> reads_of SPI1_SPSR (since s (spi1_poll hw i s)) \<noteq> [])"
proof (induction hw i s rule: spi1_poll.induct)
  case (1 hw i s0)
  define s1 where "s1 = s0\<lparr>statics := (statics s0)\<lparr>test := i\<rparr>\<rparr>"
  define f where "f = (ucast (bus_read hw (length (trace s0)) SPI1_SPSR (regs s0 SPI1_SPSR)) :: 8 word)"
  define s2 where "s2 = s1\<lparr>trace := trace s0 @ [Rd SPI1_SPSR (ucast f)]\<rparr>"
  note s2 = s2_def
  have rd: "rd8 hw SPI1_SPSR s1 = (f, s2)"
    by (simp add: s2_def f_def rd8_def Let_def s1_def)
  show ?case
  proof (cases "i < 16")
    case False
    then have "spi1_poll hw i s0 = s1"
      by (subst spi1_poll.simps) (simp add: s1_def)
    then show ?thesis
      using False by (simp add: s1_def since_def)
  next
    case small: True
    show ?thesis
    proof (cases "bit f 7")
      case True
      define d where "d = bus_read hw (Suc (Suc (length (trace s0)))) SPI1_SPDR (regs s0 SPI1_SPDR)"
      have P: "spi1_poll hw i s0 =
          s1\<lparr>regs := (regs s0)(PFS_P107PFS_BY := 5, PFS_P107PFS_BY := 4),
             trace := trace s0 @ [Rd SPI1_SPSR (ucast f), Wr PFS_P107PFS_BY 5, Rd SPI1_SPDR d,
               Wr PFS_P107PFS_BY 4],
             vars := (vars s0)\<lparr>spi1_received_val := d\<rparr>\<rparr>"
        using small True
        by (subst spi1_poll.simps) (simp add: prims Let_def sprf f_def d_def s1_def)
      show ?thesis
        using True by (simp add: P since_def s1_def flag7_ucast)
    next
      case False
      have P: "spi1_poll hw i s0 = spi1_poll hw (i + 1) s2"
        using small False
        by (subst spi1_poll.simps) (simp add: prims Let_def sprf f_def s1_def s2_def)
      have neq: "f AND push_bit SPSR_SPRF 1 \<noteq> push_bit SPSR_SPRF 1"
        using False by (simp add: sprf)
      let ?Q = "spi1_poll hw (i + 1) s2"
      have IH: "accesses_of (Spi 1) (since s2 ?Q) =
          replicate (length (reads_of SPI1_SPSR (since s2 ?Q))) (False, SPI1_SPSR) @
          (if list_ex (\<lambda>v. bit v 7) (reads_of SPI1_SPSR (since s2 ?Q))
           then [(False, SPI1_SPDR)] else [])"
        using "1.IH" [OF s1_def small refl rd [symmetric] neq] by (rule conjunct1)
      have step: "trace s2 = trace s0 @ since s0 s2"
        by (simp add: s2 since_def s1_def)
      have first: "since s0 s2 = [Rd SPI1_SPSR (ucast f)]"
        by (simp add: s2 since_def s1_def)
      have rest: "trace ?Q = trace s2 @ since s2 ?Q"
        using poll_spec [of hw "i + 1" s2] by blast
      note whole = since_trans [OF step rest]
      have E: "since s0 (spi1_poll hw i s0) = Rd SPI1_SPSR (ucast f) # since s2 ?Q"
        using whole(2) by (simp add: P first)
      have nf: "\<not> bit (ucast f :: 32 word) 7"
        using False by (simp add: flag7_ucast)
      show ?thesis
        using IH nf by (simp add: E)
    qed
  qed
qed

lemma spi1_accesses:
  "let es = since s (timer7_spi1 hw s);
       polls = drop 2 (reads_of SPI1_SPSR es)
   in polls \<noteq> [] \<and> length polls \<le> 16 \<and>
      \<not> list_ex (\<lambda>v. bit v 7) (butlast polls) \<and>
      (list_ex (\<lambda>v. bit v 7) polls \<or> length polls = 16) \<and>
      accesses_of (Spi 1) es =
        [(False, SPI1_SPSR), (True, SPI1_SPSR), (False, SPI1_SPSR), (True, SPI1_SPSR),
         (False, SPI1_SPDR), (True, SPI1_SPDR)] @
        replicate (length polls) (False, SPI1_SPSR) @
        (if list_ex (\<lambda>v. bit v 7) polls then [(False, SPI1_SPDR)] else [])"
proof -
  let ?a = "spi1_send hw s"
  let ?b = "spi1_poll hw 0 ?a"
  let ?fs = "reads_of SPI1_SPSR (since ?a ?b)"
  have polls: "drop 2 (reads_of SPI1_SPSR (since s (timer7_spi1 hw s))) = ?fs"
    by (simp add: spi1_since send_accesses)
  note spec = spi1_spec [of s hw, unfolded polls]
  note poll = poll_accesses [of ?a hw 0]
  have ne: "?fs \<noteq> []"
    using poll by simp
  have full: "list_ex (\<lambda>v. bit v 7) ?fs \<or> length ?fs = 16"
    using spec by (cases "list_ex (\<lambda>v. bit v 7) ?fs") simp_all
  have acc: "accesses_of (Spi 1) (since s (timer7_spi1 hw s)) =
        [(False, SPI1_SPSR), (True, SPI1_SPSR), (False, SPI1_SPSR), (True, SPI1_SPSR),
         (False, SPI1_SPDR), (True, SPI1_SPDR)] @
        replicate (length ?fs) (False, SPI1_SPSR) @
        (if list_ex (\<lambda>v. bit v 7) ?fs then [(False, SPI1_SPDR)] else [])"
    using poll by (simp add: spi1_since [of s hw] send_order)
  show ?thesis
    unfolding Let_def polls using ne spec full acc by blast
qed

text \<open>
  Claim C1. In every run of \<^verbatim>\<open>timer7interrupt\<close>, for every hardware behaviour and every state
  at entry, the accesses to the registers of the ADC, of SPI0, of SPI1, of the DAC and of
  the GPT form five blocks in exactly this order, none of them empty and none met twice
  (the pin writes and the interrupt controller access between them belong to no
  peripheral), and each block is the access sequence of its phase.

  \<^item> ADC: \<^verbatim>\<open>ADC140_ADDR00\<close> and \<^verbatim>\<open>ADC140_ADDR01\<close> are read into \<^verbatim>\<open>adc_val_A1\<close> and
    \<^verbatim>\<open>adc_val_A2\<close>, then the start bit 15 of \<^verbatim>\<open>ADC140_ADCSR\<close> is set.
  \<^item> SPI0, the slave: after the two flag updates of \<^verbatim>\<open>SPI0_SPSR\<close> the status register is
    read three times, for the receive, the transmit and the fault test. \<^verbatim>\<open>SPI0_SPDR\<close> is
    read, into \<^verbatim>\<open>spi0_received_val\<close>, exactly when the first of these reads has bit 7
    (SPRF); it is written, with \<^verbatim>\<open>adc_val_A1\<close>, exactly when the second has bit 5 (SPTEF);
    the fault flag is cleared in \<^verbatim>\<open>SPI0_SPSR\<close> exactly when the third has bit 2 (MODF).
  \<^item> SPI1, the master: after the two flag updates of \<^verbatim>\<open>SPI1_SPSR\<close> the data register is
    read and then written with the transmit counter; then \<^verbatim>\<open>SPI1_SPSR\<close> is polled at least
    once and at most 16 times, the poll ending at the first read with bit 7 (SPRF), after
    which \<^verbatim>\<open>SPI1_SPDR\<close> is read; without such a read there are 16 polls and no data read.
  \<^item> DAC: one write of \<^verbatim>\<open>DAC12_DADR0\<close>.
  \<^item> GPT: the four writes of \<^verbatim>\<open>GPT321_GTCCRC\<close>, \<^verbatim>\<open>GPT321_GTCCRD\<close>, \<^verbatim>\<open>GPT167_GTCCRC\<close> and
    \<^verbatim>\<open>GPT167_GTCCRD\<close>.
\<close>

theorem timer7interrupt_phase_order:
  "let s' = timer7interrupt hw s;
       es = since s s';
       fs = reads_of SPI0_SPSR es;
       polls = drop 2 (reads_of SPI1_SPSR es)
   in remdups_adj (units es) = [Adc, Spi 0, Spi 1, Dac, Gpt] \<and>
      accesses_of Adc es =
        [(False, ADC140_ADDR00), (False, ADC140_ADDR01), (False, ADC140_ADCSR),
         (True, ADC140_ADCSR)] \<and>
      reads_of ADC140_ADDR00 es = [ucast (adc_val_A1 (vars s'))] \<and>
      reads_of ADC140_ADDR01 es = [ucast (adc_val_A2 (vars s'))] \<and>
      list_all (\<lambda>v. bit v 15) (writes_of ADC140_ADCSR es) \<and>
      5 \<le> length fs \<and>
      accesses_of (Spi 0) es =
        [(False, SPI0_SPSR), (True, SPI0_SPSR), (False, SPI0_SPSR), (True, SPI0_SPSR)] @
        (False, SPI0_SPSR) # (if bit (fs ! 2) 7 then [(False, SPI0_SPDR)] else []) @
        (False, SPI0_SPSR) # (if bit (fs ! 3) 5 then [(True, SPI0_SPDR)] else []) @
        (False, SPI0_SPSR) #
        (if bit (fs ! 4) 2 then [(False, SPI0_SPSR), (True, SPI0_SPSR)] else []) \<and>
      reads_of SPI0_SPDR es =
        (if bit (fs ! 2) 7 then [spi0_received_val (vars s')] else []) \<and>
      writes_of SPI0_SPDR es =
        (if bit (fs ! 3) 5 then [ucast (adc_val_A1 (vars s'))] else []) \<and>
      polls \<noteq> [] \<and> length polls \<le> 16 \<and>
      \<not> list_ex (\<lambda>v. bit v 7) (butlast polls) \<and>
      (list_ex (\<lambda>v. bit v 7) polls \<or> length polls = 16) \<and>
      accesses_of (Spi 1) es =
        [(False, SPI1_SPSR), (True, SPI1_SPSR), (False, SPI1_SPSR), (True, SPI1_SPSR),
         (False, SPI1_SPDR), (True, SPI1_SPDR)] @
        replicate (length polls) (False, SPI1_SPSR) @
        (if list_ex (\<lambda>v. bit v 7) polls then [(False, SPI1_SPDR)] else []) \<and>
      writes_of SPI1_SPDR es = [ucast (localCount (statics s))] \<and>
      accesses_of Dac es = [(True, DAC12_DADR0)] \<and>
      accesses_of Gpt es =
        [(True, GPT321 GTCCRC), (True, GPT321 GTCCRD), (True, GPT167 GTCCRC),
         (True, GPT167 GTCCRD)]"
proof -
  define s1 where "s1 = timer7_adc hw s"
  define s2 where "s2 = timer7_spi0 hw s1"
  define s3 where "s3 = timer7_spi1 hw s2"
  define s4 where "s4 = timer7_dac s3"
  define s5 where "s5 = timer7_pwm s4"
  define s6 where "s6 = timer7_count s5"
  note defs = s1_def s2_def s3_def s4_def s5_def s6_def
  note whole = timer7_since [OF defs]
  note part = timer7_sections [OF defs]
  obtain a1 a2 r0 r1 p i where frames:
    "vars s1 = (vars s)\<lparr>adc_val_A1 := a1, adc_val_A2 := a2\<rparr>"
    "vars s2 = (vars s1)\<lparr>spi0_received_val := r0\<rparr>"
    "vars s3 = (vars s2)\<lparr>spi1_received_val := r1\<rparr>"
    "vars s4 = (vars s3)\<lparr>phaccu0 := p, icount0 := i\<rparr>"
    "vars s5 = (vars s4)\<lparr>directionFlag := \<not> directionFlag (vars s4)\<rparr>"
    "vars s6 =
      (if loop_counter (vars s5) + 1 \<ge> LOOP_COUNT_VAL
       then (vars s5)\<lparr>loop_counter := 0, loopFlag := True\<rparr>
       else (vars s5)\<lparr>loop_counter := loop_counter (vars s5) + 1\<rparr>)"
    using timer7_frames [OF defs] by blast
  have adc: "adc_val_A1 (vars s1) = adc_val_A1 (vars s6)"
    "adc_val_A2 (vars s1) = adc_val_A2 (vars s6)"
    by (simp_all add: frames(2-6))
  have c1: "remdups_adj (units (since s s6)) = [Adc, Spi 0, Spi 1, Dac, Gpt]"
    using timer7_units [of s hw] by (simp add: whole(1))
  have c2: "accesses_of Adc (since s s6) =
      [(False, ADC140_ADDR00), (False, ADC140_ADDR01), (False, ADC140_ADCSR),
       (True, ADC140_ADCSR)]"
    unfolding part(6) s1_def by (rule adc_accesses)
  have c3: "reads_of ADC140_ADDR00 (since s s6) = [ucast (adc_val_A1 (vars s6))]"
    using part(1) [of ADC140_ADDR00] adc_reads(1) [of s hw] by (simp add: adc [symmetric] s1_def)
  have c4: "reads_of ADC140_ADDR01 (since s s6) = [ucast (adc_val_A2 (vars s6))]"
    using part(1) [of ADC140_ADDR01] adc_reads(2) [of s hw] by (simp add: adc [symmetric] s1_def)
  have c5: "list_all (\<lambda>v. bit v 15) (writes_of ADC140_ADCSR (since s s6))"
    using part(1) [of ADC140_ADCSR] adc_start [of s hw] by (simp add: s1_def)
  obtain t where "statics s2 = (statics s1)\<lparr>test := t\<rparr>"
    unfolding s2_def using spi0_statics by blast
  then have count: "localCount (statics s2) = localCount (statics s)"
    by (simp add: s1_def adc_statics)
  have c6: "writes_of SPI1_SPDR (since s s6) = [ucast (localCount (statics s))]"
    using part(3) [of SPI1_SPDR] spi1_spec [of s2 hw] by (simp add: s3_def count)
  have c7: "accesses_of Dac (since s s6) = [(True, DAC12_DADR0)]"
    unfolding part(7) s4_def by (rule dac_accesses)
  have c8: "accesses_of Gpt (since s s6) =
      [(True, GPT321 GTCCRC), (True, GPT321 GTCCRD), (True, GPT167 GTCCRC),
       (True, GPT167 GTCCRD)]"
    unfolding part(8) s5_def by (rule pwm_accesses)
  have rx: "spi0_received_val (vars s2) = spi0_received_val (vars s6)"
    by (simp add: frames(3-6))
  have f0: "reads_of SPI0_SPSR (since s s6) = reads_of SPI0_SPSR (since s1 s2)"
    "reads_of SPI0_SPDR (since s s6) = reads_of SPI0_SPDR (since s1 s2)"
    "writes_of SPI0_SPDR (since s s6) = writes_of SPI0_SPDR (since s1 s2)"
    using part(2) [of SPI0_SPSR] part(2) [of SPI0_SPDR] by simp_all
  have f1: "reads_of SPI1_SPSR (since s s6) = reads_of SPI1_SPSR (since s2 s3)"
    using part(3) [of SPI1_SPSR] by simp
  have c9: "5 \<le> length (reads_of SPI0_SPSR (since s s6))"
    "accesses_of (Spi 0) (since s s6) =
      [(False, SPI0_SPSR), (True, SPI0_SPSR), (False, SPI0_SPSR), (True, SPI0_SPSR)] @
      (False, SPI0_SPSR) #
      (if bit (reads_of SPI0_SPSR (since s s6) ! 2) 7 then [(False, SPI0_SPDR)] else []) @
      (False, SPI0_SPSR) #
      (if bit (reads_of SPI0_SPSR (since s s6) ! 3) 5 then [(True, SPI0_SPDR)] else []) @
      (False, SPI0_SPSR) #
      (if bit (reads_of SPI0_SPSR (since s s6) ! 4) 2
       then [(False, SPI0_SPSR), (True, SPI0_SPSR)] else [])"
    "reads_of SPI0_SPDR (since s s6) =
      (if bit (reads_of SPI0_SPSR (since s s6) ! 2) 7 then [spi0_received_val (vars s6)]
       else [])"
    "writes_of SPI0_SPDR (since s s6) =
      (if bit (reads_of SPI0_SPSR (since s s6) ! 3) 5 then [ucast (adc_val_A1 (vars s6))]
       else [])"
    unfolding f0 part(9) rx [symmetric] adc(1) [symmetric] s2_def
    using spi0_accesses [of s1 hw] by (simp_all only: Let_def)
  have c10: "drop 2 (reads_of SPI1_SPSR (since s s6)) \<noteq> []"
    "length (drop 2 (reads_of SPI1_SPSR (since s s6))) \<le> 16"
    "\<not> list_ex (\<lambda>v. bit v 7) (butlast (drop 2 (reads_of SPI1_SPSR (since s s6))))"
    "list_ex (\<lambda>v. bit v 7) (drop 2 (reads_of SPI1_SPSR (since s s6))) \<or>
     length (drop 2 (reads_of SPI1_SPSR (since s s6))) = 16"
    "accesses_of (Spi 1) (since s s6) =
      [(False, SPI1_SPSR), (True, SPI1_SPSR), (False, SPI1_SPSR), (True, SPI1_SPSR),
       (False, SPI1_SPDR), (True, SPI1_SPDR)] @
      replicate (length (drop 2 (reads_of SPI1_SPSR (since s s6)))) (False, SPI1_SPSR) @
      (if list_ex (\<lambda>v. bit v 7) (drop 2 (reads_of SPI1_SPSR (since s s6)))
       then [(False, SPI1_SPDR)] else [])"
    unfolding f1 part(10) s3_def
    using spi1_accesses [of s2 hw] unfolding Let_def by blast+
  show ?thesis
    unfolding Let_def whole(1) using c1 c2 c3 c4 c5 c6 c7 c8 c9 c10 by blast
qed

subsection \<open>Received SPI data\<close>

text \<open>
  Claim C3. In one run of \<^verbatim>\<open>timer7interrupt\<close> the third read of \<^verbatim>\<open>SPI0_SPSR\<close> is the one whose
  bit 7 is tested (two reads come before it, for the flag clearing and setting, and at
  least two come after it). \<^verbatim>\<open>SPI0_SPDR\<close> is read, and \<^verbatim>\<open>spi0_received_val\<close> assigned from it,
  exactly when that bit is 1; otherwise \<^verbatim>\<open>spi0_received_val\<close> keeps its value. After the two
  reads for the flags, \<^verbatim>\<open>SPI1_SPSR\<close> is polled at most 16 times, and no poll before the last
  shows bit 7. When a poll shows bit 7, \<^verbatim>\<open>spi1_received_val\<close> is assigned from the second
  read of \<^verbatim>\<open>SPI1_SPDR\<close> (the first empties the register); otherwise all 16 polls were
  made, \<^verbatim>\<open>SPI1_SPDR\<close> is read once only and \<^verbatim>\<open>spi1_received_val\<close> keeps its value.
\<close>

theorem timer7interrupt_received_only_when_flagged:
  "let s' = timer7interrupt hw s;
       es = since s s';
       flag0 = reads_of SPI0_SPSR es ! 2;
       polls = drop 2 (reads_of SPI1_SPSR es)
   in 5 \<le> length (reads_of SPI0_SPSR es) \<and>
      length (reads_of SPI0_SPDR es) = (if bit flag0 7 then 1 else 0) \<and>
      spi0_received_val (vars s') =
        (if bit flag0 7 then hd (reads_of SPI0_SPDR es) else spi0_received_val (vars s)) \<and>
      length polls \<le> 16 \<and>
      \<not> list_ex (\<lambda>v. bit v 7) (butlast polls) \<and>
      length polls = (if list_ex (\<lambda>v. bit v 7) polls then length polls else 16) \<and>
      length (reads_of SPI1_SPDR es) = (if list_ex (\<lambda>v. bit v 7) polls then 2 else 1) \<and>
      spi1_received_val (vars s') =
        (if list_ex (\<lambda>v. bit v 7) polls then reads_of SPI1_SPDR es ! 1
         else spi1_received_val (vars s))"
proof -
  define s1 where "s1 = timer7_adc hw s"
  define s2 where "s2 = timer7_spi0 hw s1"
  define s3 where "s3 = timer7_spi1 hw s2"
  define s4 where "s4 = timer7_dac s3"
  define s5 where "s5 = timer7_pwm s4"
  define s6 where "s6 = timer7_count s5"
  note defs = s1_def s2_def s3_def s4_def s5_def s6_def
  note whole = timer7_since [OF defs]
  note part = timer7_sections [OF defs]
  obtain a1 a2 r0 r1 p i where frames:
    "vars s1 = (vars s)\<lparr>adc_val_A1 := a1, adc_val_A2 := a2\<rparr>"
    "vars s2 = (vars s1)\<lparr>spi0_received_val := r0\<rparr>"
    "vars s3 = (vars s2)\<lparr>spi1_received_val := r1\<rparr>"
    "vars s4 = (vars s3)\<lparr>phaccu0 := p, icount0 := i\<rparr>"
    "vars s5 = (vars s4)\<lparr>directionFlag := \<not> directionFlag (vars s4)\<rparr>"
    "vars s6 =
      (if loop_counter (vars s5) + 1 \<ge> LOOP_COUNT_VAL
       then (vars s5)\<lparr>loop_counter := 0, loopFlag := True\<rparr>
       else (vars s5)\<lparr>loop_counter := loop_counter (vars s5) + 1\<rparr>)"
    using timer7_frames [OF defs] by blast
  have keep0: "spi0_received_val (vars s6) = spi0_received_val (vars s2)"
    "spi0_received_val (vars s1) = spi0_received_val (vars s)"
    and keep1: "spi1_received_val (vars s6) = spi1_received_val (vars s3)"
    "spi1_received_val (vars s2) = spi1_received_val (vars s)"
    by (simp_all add: frames)
  have r0s: "reads_of SPI0_SPSR (since s s6) = reads_of SPI0_SPSR (since s1 s2)"
    and r0d: "reads_of SPI0_SPDR (since s s6) = reads_of SPI0_SPDR (since s1 s2)"
    using part(2) [of SPI0_SPSR] part(2) [of SPI0_SPDR] by simp_all
  have r1s: "reads_of SPI1_SPSR (since s s6) = reads_of SPI1_SPSR (since s2 s3)"
    and r1d: "reads_of SPI1_SPDR (since s s6) = reads_of SPI1_SPDR (since s2 s3)"
    using part(3) [of SPI1_SPSR] part(3) [of SPI1_SPDR] by simp_all
  obtain pre f post d where slave:
    "reads_of SPI0_SPSR (since s1 s2) = pre @ f # post" "length pre = 2" "2 \<le> length post"
    "reads_of SPI0_SPDR (since s1 s2) = (if bit f 7 then [d] else [])"
    "vars s2 = (vars s1)\<lparr>spi0_received_val :=
       (if bit f 7 then d else spi0_received_val (vars s1))\<rparr>"
    unfolding s2_def using spi0_spec [of s1 hw] by blast
  have flag0: "reads_of SPI0_SPSR (since s s6) ! 2 = f"
    using slave(2) by (simp add: r0s slave(1) nth_append)
  have c1: "5 \<le> length (reads_of SPI0_SPSR (since s s6))"
    using slave(2,3) by (simp add: r0s slave(1))
  have c2: "length (reads_of SPI0_SPDR (since s s6)) =
      (if bit (reads_of SPI0_SPSR (since s s6) ! 2) 7 then 1 else 0)"
    by (simp add: flag0 r0d slave(4))
  have c3: "spi0_received_val (vars s6) =
      (if bit (reads_of SPI0_SPSR (since s s6) ! 2) 7 then hd (reads_of SPI0_SPDR (since s s6))
       else spi0_received_val (vars s))"
    by (simp add: flag0 r0d slave(4) keep0(1) slave(5) keep0(2))
  let ?polls = "drop 2 (reads_of SPI1_SPSR (since s s6))"
  note master = spi1_spec [of s2 hw, folded s3_def, folded r1s r1d]
  have c4: "length ?polls \<le> 16" and c5: "\<not> list_ex (\<lambda>v. bit v 7) (butlast ?polls)"
    using master by blast+
  have c678: "length ?polls = (if list_ex (\<lambda>v. bit v 7) ?polls then length ?polls else 16) \<and>
      length (reads_of SPI1_SPDR (since s s6)) = (if list_ex (\<lambda>v. bit v 7) ?polls then 2 else 1) \<and>
      spi1_received_val (vars s6) =
        (if list_ex (\<lambda>v. bit v 7) ?polls then reads_of SPI1_SPDR (since s s6) ! 1
         else spi1_received_val (vars s))"
  proof (cases "list_ex (\<lambda>v. bit v 7) ?polls")
    case True
    with master obtain l d where "reads_of SPI1_SPDR (since s s6) = [l, d]"
      and "vars s3 = (vars s2)\<lparr>spi1_received_val := d\<rparr>"
      by auto
    with True show ?thesis
      by (simp add: keep1(1))
  next
    case False
    with master obtain l where "length ?polls = 16"
      and "reads_of SPI1_SPDR (since s s6) = [l]" and "vars s3 = vars s2"
      by auto
    with False show ?thesis
      by (simp add: keep1)
  qed
  show ?thesis
    unfolding Let_def whole(1) using c1 c2 c3 c4 c5 c678 by blast
qed

subsection \<open>The other handlers\<close>



section \<open>Lemmas about the setup\<close>

lemma channels_8: "[0 .. 7] = [0, 1, 2, 3, 4, 5, 6, 7 :: int]"
  by code_simp

lemma timers_channels:
  "configured_channels (since s (setup_timers hw s)) = [1, 4, 7]"
  by (simp add: setup_timers_def setup_timer7_def setup_timer1_def setup_timer4_def
      start_timers_def prims Let_def since_def configured_channels_def initialised_def channels_8)

lemma bus_read_stored: "hw t r = None \<Longrightarrow> bus_read hw t r x = x"
  by (simp add: bus_read_def)

lemma ucast_16_32_16: "ucast (ucast x :: 32 word) = x" for x :: "16 word"
  by (simp add: ucast_up_ucast_id is_up)

lemma ucast_8_32_8: "ucast (ucast x :: 32 word) = x" for x :: "8 word"
  by (simp add: ucast_up_ucast_id is_up)

subsection \<open>Timers\<close>

text \<open>
  Claim C5, as amended. \<^verbatim>\<open>setup_timers\<close> writes a control, a counter, a compare, a period
  and an I/O register of exactly three of the eight GPT channels: channel 1
  (\<^verbatim>\<open>GPT321\<close>), channel 4 (\<^verbatim>\<open>GPT164\<close>) and channel 7 (\<^verbatim>\<open>GPT167\<close>).
\<close>

theorem setup_timers_configures_three_channels:
  "configured_channels (since s (setup_timers hw s)) = [1, 4, 7] \<and>
   length (configured_channels (since s (setup_timers hw s))) = 3"
  by (simp add: timers_channels)

text \<open>
  The claim as stated, exactly two channels, fails on the machine at power-on with quiet
  hardware.
\<close>

theorem setup_timers_two_channels_counterexample:
  "length (configured_channels (since power_on (setup_timers quiet power_on))) \<noteq> 2"
  by (simp add: timers_channels)

subsection \<open>ADC\<close>

lemma adc_setup_writes:
  "writes_of ADC140_ADCER (since s (setup_adc hw s)) = [0x06]"
  "writes_of ADC140_ADADC (since s (setup_adc hw s)) = [0x83]"
  "regs (setup_adc hw s) ADC140_ADCER = 0x06"
  "regs (setup_adc hw s) ADC140_ADADC = 0x83"
  by (simp_all add: setup_adc_def prims Let_def since_def)

lemma adc_setup_channels:
  assumes "\<And>t. hw t ADC140_ADANSA0 = None" and "\<And>t. hw t ADC140_ADADS0 = None"
  shows "regs (setup_adc hw s) ADC140_ADANSA0 =
      ucast ((ucast (regs s ADC140_ADANSA0) :: 16 word) OR 3)"
    and "regs (setup_adc hw s) ADC140_ADADS0 =
      ucast ((ucast (regs s ADC140_ADADS0) :: 16 word) OR 3)"
proof -
  have three: "(x OR 2) OR 1 = x OR 3" for x :: "16 word"
    by (simp add: or.assoc)
  show "regs (setup_adc hw s) ADC140_ADANSA0 =
      ucast ((ucast (regs s ADC140_ADANSA0) :: 16 word) OR 3)"
    by (simp add: setup_adc_def prims Let_def bus_read_stored assms ucast_16_32_16 three)
  show "regs (setup_adc hw s) ADC140_ADADS0 =
      ucast ((ucast (regs s ADC140_ADADS0) :: 16 word) OR 3)"
    by (simp add: setup_adc_def prims Let_def bus_read_stored assms ucast_16_32_16 three)
qed

lemma selected: "bit (ucast (x OR 3) :: 32 word) 0 \<and> bit (ucast (x OR 3) :: 32 word) 1"
  for x :: "16 word"
  by (simp add: bit_simps One_nat_def)

lemma resolution_14_bit: "take_bit 2 (drop_bit 1 (0x06 :: 32 word)) = 3 \<and> \<not> bit (0x06 :: 32 word) 5"
  by (simp add: One_nat_def)

text \<open>
  Claim C7. \<^verbatim>\<open>setup_adc\<close> writes \<^verbatim>\<open>ADC140_ADCER = 0x06\<close>, which has the resolution bits 2 and 1
  both set (14-bit conversion) and the automatic-clear bit 5 clear, and writes
  \<^verbatim>\<open>ADC140_ADADC = 0x83\<close> (average mode, four conversions). Where \<^verbatim>\<open>ADC140_ADANSA0\<close> and
  \<^verbatim>\<open>ADC140_ADADS0\<close> read back what was written, the function leaves both with the bits 0 and 1
  of channels AN00 and AN01 set, in addition to the bits they held.
\<close>

theorem setup_adc_14_bit_two_channels_averaged:
  "let s' = setup_adc hw s;
       es = since s s'
   in writes_of ADC140_ADCER es = [0x06] \<and>
      regs s' ADC140_ADCER = 0x06 \<and>
      take_bit 2 (drop_bit 1 (regs s' ADC140_ADCER)) = 3 \<and>
      \<not> bit (regs s' ADC140_ADCER) 5 \<and>
      writes_of ADC140_ADADC es = [0x83] \<and>
      regs s' ADC140_ADADC = 0x83 \<and>
      ((\<forall>t. hw t ADC140_ADANSA0 = None) \<and> (\<forall>t. hw t ADC140_ADADS0 = None) \<longrightarrow>
         regs s' ADC140_ADANSA0 = ucast ((ucast (regs s ADC140_ADANSA0) :: 16 word) OR 3) \<and>
         bit (regs s' ADC140_ADANSA0) 0 \<and> bit (regs s' ADC140_ADANSA0) 1 \<and>
         regs s' ADC140_ADADS0 = ucast ((ucast (regs s ADC140_ADADS0) :: 16 word) OR 3) \<and>
         bit (regs s' ADC140_ADADS0) 0 \<and> bit (regs s' ADC140_ADADS0) 1)"
proof -
  have fixed: "writes_of ADC140_ADCER (since s (setup_adc hw s)) = [0x06] \<and>
      regs (setup_adc hw s) ADC140_ADCER = 0x06 \<and>
      take_bit 2 (drop_bit 1 (regs (setup_adc hw s) ADC140_ADCER)) = 3 \<and>
      \<not> bit (regs (setup_adc hw s) ADC140_ADCER) 5 \<and>
      writes_of ADC140_ADADC (since s (setup_adc hw s)) = [0x83] \<and>
      regs (setup_adc hw s) ADC140_ADADC = 0x83"
    unfolding adc_setup_writes using resolution_14_bit by simp
  have stored: "regs (setup_adc hw s) ADC140_ADANSA0 =
        ucast ((ucast (regs s ADC140_ADANSA0) :: 16 word) OR 3) \<and>
      bit (regs (setup_adc hw s) ADC140_ADANSA0) 0 \<and>
      bit (regs (setup_adc hw s) ADC140_ADANSA0) 1 \<and>
      regs (setup_adc hw s) ADC140_ADADS0 =
        ucast ((ucast (regs s ADC140_ADADS0) :: 16 word) OR 3) \<and>
      bit (regs (setup_adc hw s) ADC140_ADADS0) 0 \<and>
      bit (regs (setup_adc hw s) ADC140_ADADS0) 1"
    if "\<forall>t. hw t ADC140_ADANSA0 = None" and "\<forall>t. hw t ADC140_ADADS0 = None"
    unfolding adc_setup_channels [of hw, OF that [rule_format]] using selected by simp
  show ?thesis
    unfolding Let_def using fixed stored by blast
qed

theorem setup_adc_14_bit_two_channels_averaged_witness:
  "(\<forall>t. quiet t ADC140_ADANSA0 = None) \<and> (\<forall>t. quiet t ADC140_ADADS0 = None) \<and>
   writes_of ADC140_ADCER (since power_on (setup_adc quiet power_on)) = [0x06] \<and>
   writes_of ADC140_ADADC (since power_on (setup_adc quiet power_on)) = [0x83] \<and>
   regs (setup_adc quiet power_on) ADC140_ADANSA0 = 3 \<and>
   regs (setup_adc quiet power_on) ADC140_ADADS0 = 3"
  using setup_adc_14_bit_two_channels_averaged [of quiet power_on]
  by (simp add: quiet_def Let_def power_on_def)

subsection \<open>SPI\<close>

lemma master_bits:
  fixes x :: "8 word"
  shows "bit (x OR 0x48) SPCR_SPE" and "bit (x OR 0x48) SPCR_MSTR" and "bit (x OR 0x40) SPCR_SPE"
    and "bit (x OR 0x40) SPCR_MSTR = bit x SPCR_MSTR"
  by (simp_all add: SPCR_SPE_def SPCR_MSTR_def bit_simps)

lemma irq_bits:
  fixes x :: "8 word"
  shows "bit (x OR push_bit SPCR_SPTIE 1 OR push_bit SPCR_SPRIE 1 OR push_bit SPCR_SPEIE 1) SPCR_MSTR
    = bit x SPCR_MSTR"
  by (simp add: SPCR_SPTIE_def SPCR_SPRIE_def SPCR_SPEIE_def SPCR_MSTR_def bit_simps
      del: push_bit_of_1)

lemma spi0_control:
  assumes "\<And>t. hw t SPI0_SPCR = None"
  shows "\<exists>irq. setup_spi0 hw MSmode bitRate numBits IRQmode s =
      (irq OR (if MSmode then 0x48 else 0x40),
       (snd (setup_spi0 hw MSmode bitRate numBits IRQmode s))) \<and>
      regs (snd (setup_spi0 hw MSmode bitRate numBits IRQmode s)) SPI0_SPCR =
        ucast (irq OR (if MSmode then 0x48 else 0x40)) \<and>
      last (writes_of SPI0_SPCR (since s (snd (setup_spi0 hw MSmode bitRate numBits IRQmode s)))) =
        ucast (irq OR (if MSmode then 0x48 else 0x40)) \<and>
      \<not> bit irq SPCR_MSTR"
proof -
  define irq :: "8 word" where "irq =
    (if IRQmode then push_bit SPCR_SPTIE 1 OR push_bit SPCR_SPRIE 1 OR push_bit SPCR_SPEIE 1 else 0)"
  have clear: "\<not> bit irq SPCR_MSTR"
    using irq_bits [of 0] by (simp add: irq_def del: push_bit_of_1)
  have "setup_spi0 hw MSmode bitRate numBits IRQmode s =
      (irq OR (if MSmode then 0x48 else 0x40),
       (snd (setup_spi0 hw MSmode bitRate numBits IRQmode s))) \<and>
      regs (snd (setup_spi0 hw MSmode bitRate numBits IRQmode s)) SPI0_SPCR =
        ucast (irq OR (if MSmode then 0x48 else 0x40)) \<and>
      last (writes_of SPI0_SPCR (since s (snd (setup_spi0 hw MSmode bitRate numBits IRQmode s)))) =
        ucast (irq OR (if MSmode then 0x48 else 0x40))"
    by (cases MSmode; cases IRQmode; cases "4 \<le> numBits")
      (simp_all add: setup_spi0_def prims Let_def since_def bus_read_stored assms ucast_8_32_8
        irq_def or.assoc del: push_bit_of_1)
  with clear show ?thesis
    by blast
qed

lemma spi1_control:
  assumes "\<And>t. hw t SPI1_SPCR = None"
  shows "\<exists>irq. setup_spi1 hw MSmode bitRate numBits IRQmode s =
      (irq OR (if MSmode then 0x48 else 0x40),
       (snd (setup_spi1 hw MSmode bitRate numBits IRQmode s))) \<and>
      regs (snd (setup_spi1 hw MSmode bitRate numBits IRQmode s)) SPI1_SPCR =
        ucast (irq OR (if MSmode then 0x48 else 0x40)) \<and>
      last (writes_of SPI1_SPCR (since s (snd (setup_spi1 hw MSmode bitRate numBits IRQmode s)))) =
        ucast (irq OR (if MSmode then 0x48 else 0x40)) \<and>
      \<not> bit irq SPCR_MSTR"
proof -
  define irq :: "8 word" where "irq =
    (if IRQmode then push_bit SPCR_SPTIE 1 OR push_bit SPCR_SPRIE 1 OR push_bit SPCR_SPEIE 1 else 0)"
  have clear: "\<not> bit irq SPCR_MSTR"
    using irq_bits [of 0] by (simp add: irq_def del: push_bit_of_1)
  have "setup_spi1 hw MSmode bitRate numBits IRQmode s =
      (irq OR (if MSmode then 0x48 else 0x40),
       (snd (setup_spi1 hw MSmode bitRate numBits IRQmode s))) \<and>
      regs (snd (setup_spi1 hw MSmode bitRate numBits IRQmode s)) SPI1_SPCR =
        ucast (irq OR (if MSmode then 0x48 else 0x40)) \<and>
      last (writes_of SPI1_SPCR (since s (snd (setup_spi1 hw MSmode bitRate numBits IRQmode s)))) =
        ucast (irq OR (if MSmode then 0x48 else 0x40))"
    by (cases MSmode; cases IRQmode; cases "4 \<le> numBits")
      (simp_all add: setup_spi1_def prims Let_def since_def bus_read_stored assms ucast_8_32_8
        irq_def or.assoc del: push_bit_of_1)
  with clear show ?thesis
    by blast
qed

lemma control_bits:
  fixes irq :: "8 word"
  assumes "\<not> bit irq SPCR_MSTR"
  shows "bit (irq OR (if m then 0x48 else 0x40)) SPCR_SPE"
    and "bit (irq OR (if m then 0x48 else 0x40)) SPCR_MSTR = m"
  using assms by (simp_all add: bit_or_iff master_bits [of 0, simplified])

lemma spi0_keeps_spi1:
  "regs (snd (setup_spi0 hw MSmode bitRate numBits IRQmode s)) SPI1_SPCR = regs s SPI1_SPCR"
  by (cases MSmode; cases IRQmode; cases "4 \<le> numBits")
    (simp_all add: setup_spi0_def prims Let_def)

lemma adc_keeps_spi: "regs (setup_adc hw s) (SPI n SPCR) = regs s (SPI n SPCR)"
  by (simp add: setup_adc_def prims Let_def)

lemma dac_keeps_spi: "regs (setup_dac hw s) (SPI n SPCR) = regs s (SPI n SPCR)"
  by (simp add: setup_dac_def delayMicroseconds_def prims Let_def)

lemma timers_keep_spi: "regs (setup_timers hw s) (SPI n SPCR) = regs s (SPI n SPCR)"
  by (simp add: setup_timers_def setup_timer7_def setup_timer1_def setup_timer4_def
      start_timers_def prims Let_def)

lemma wait_serial_ready: "ready (m + d) \<Longrightarrow> \<exists>k. wait_serial ready m = Some k"
proof (induction d arbitrary: m)
  case 0
  then show ?case
    by (subst wait_serial.simps) simp
next
  case (Suc d)
  then have "ready (Suc m + d)"
    by simp
  then obtain k where "wait_serial ready (Suc m) = Some k"
    using Suc.IH by blast
  then show ?case
    by (subst wait_serial.simps) simp
qed

lemma peripherals_spi:
  assumes "\<And>t. hw t SPI0_SPCR = None" and "\<And>t. hw t SPI1_SPCR = None"
  shows "bit (regs (setup_peripherals hw s) SPI1_SPCR) SPCR_SPE"
    and "bit (regs (setup_peripherals hw s) SPI1_SPCR) SPCR_MSTR"
    and "bit (regs (setup_peripherals hw s) SPI0_SPCR) SPCR_SPE"
    and "\<not> bit (regs (setup_peripherals hw s) SPI0_SPCR) SPCR_MSTR"
proof -
  define a where "a = snd (setup_spi1 hw SPI_MASTER SPI_BR_8M0Hz SPI_BITS_32 SPI_IRQEN s)"
  define b where "b = snd (setup_spi0 hw SPI_SLAVE SPI_BR_8M0Hz SPI_BITS_32 SPI_POLL a)"
  have final: "regs (setup_peripherals hw s) (SPI n SPCR) = regs b (SPI n SPCR)" for n
    by (simp add: setup_peripherals_def Let_def split_def a_def b_def prims timers_keep_spi
        dac_keeps_spi adc_keeps_spi)
  obtain irq1 :: "8 word" where one:
    "regs a SPI1_SPCR = ucast (irq1 OR (if SPI_MASTER then 0x48 else 0x40))"
    "\<not> bit irq1 SPCR_MSTR"
    unfolding a_def using spi1_control [of hw, OF assms(2)] by blast
  obtain irq0 :: "8 word" where zero:
    "regs b SPI0_SPCR = ucast (irq0 OR (if SPI_SLAVE then 0x48 else 0x40))"
    "\<not> bit irq0 SPCR_MSTR"
    unfolding b_def using spi0_control [of hw, OF assms(1)] by blast
  have keep: "regs b SPI1_SPCR = regs a SPI1_SPCR"
    unfolding b_def by (rule spi0_keeps_spi1)
  have small: "SPCR_SPE < 8" "SPCR_MSTR < 8"
    by (simp_all add: SPCR_SPE_def SPCR_MSTR_def)
  show "bit (regs (setup_peripherals hw s) SPI1_SPCR) SPCR_SPE"
    using control_bits(1) [OF one(2), of SPI_MASTER] small
    by (simp add: final keep one(1) bit_ucast_iff)
  show "bit (regs (setup_peripherals hw s) SPI1_SPCR) SPCR_MSTR"
    using control_bits(2) [OF one(2), of SPI_MASTER] small
    by (simp add: final keep one(1) bit_ucast_iff SPI_MASTER_def)
  show "bit (regs (setup_peripherals hw s) SPI0_SPCR) SPCR_SPE"
    using control_bits(1) [OF zero(2), of SPI_SLAVE] small
    by (simp add: final zero(1) bit_ucast_iff)
  show "\<not> bit (regs (setup_peripherals hw s) SPI0_SPCR) SPCR_MSTR"
    using control_bits(2) [OF zero(2), of SPI_SLAVE] small
    by (simp add: final zero(1) bit_ucast_iff SPI_SLAVE_def)
qed

text \<open>
  Claim C2. Where the two control registers read back what was written: the value that
  \<^verbatim>\<open>setup_spi0\<close> returns is the value it wrote last to \<^verbatim>\<open>SPI0_SPCR\<close>, it has the enable bit
  \<^verbatim>\<open>SPE\<close> (bit 6) set, and it has the master bit \<^verbatim>\<open>MSTR\<close> (bit 3) set exactly when \<^verbatim>\<open>MSmode\<close> is
  true; the same holds of \<^verbatim>\<open>setup_spi1\<close> and \<^verbatim>\<open>SPI1_SPCR\<close>. When the USB serial port comes up,
  \<^verbatim>\<open>setup()\<close> returns, and then SPI1 is enabled as master (it was set up with
  \<^verbatim>\<open>SPI_MASTER\<close>) and SPI0 is enabled as slave (it was set up with \<^verbatim>\<open>SPI_SLAVE\<close>).
\<close>

theorem setup_spi_master_and_slave:
  assumes "\<And>t. hw t SPI0_SPCR = None" and "\<And>t. hw t SPI1_SPCR = None" and "ready n"
  shows "(case setup_spi0 hw MSmode bitRate numBits IRQmode s of (ret, s') \<Rightarrow>
            last (writes_of SPI0_SPCR (since s s')) = ucast ret \<and>
            regs s' SPI0_SPCR = ucast ret \<and>
            bit ret SPCR_SPE \<and> bit ret SPCR_MSTR = MSmode) \<and>
         (case setup_spi1 hw MSmode bitRate numBits IRQmode s of (ret, s') \<Rightarrow>
            last (writes_of SPI1_SPCR (since s s')) = ucast ret \<and>
            regs s' SPI1_SPCR = ucast ret \<and>
            bit ret SPCR_SPE \<and> bit ret SPCR_MSTR = MSmode) \<and>
         SPI_MASTER \<and> \<not> SPI_SLAVE \<and>
         (\<exists>s'. setup_sketch ready hw s = Some s' \<and>
            bit (regs s' SPI1_SPCR) SPCR_SPE \<and> bit (regs s' SPI1_SPCR) SPCR_MSTR \<and>
            bit (regs s' SPI0_SPCR) SPCR_SPE \<and> \<not> bit (regs s' SPI0_SPCR) SPCR_MSTR)"
proof (intro conjI)
  obtain irq :: "8 word" where zero:
    "setup_spi0 hw MSmode bitRate numBits IRQmode s =
      (irq OR (if MSmode then 0x48 else 0x40),
       (snd (setup_spi0 hw MSmode bitRate numBits IRQmode s)))"
    "regs (snd (setup_spi0 hw MSmode bitRate numBits IRQmode s)) SPI0_SPCR =
        ucast (irq OR (if MSmode then 0x48 else 0x40))"
    "last (writes_of SPI0_SPCR (since s (snd (setup_spi0 hw MSmode bitRate numBits IRQmode s)))) =
        ucast (irq OR (if MSmode then 0x48 else 0x40))"
    "\<not> bit irq SPCR_MSTR"
    using spi0_control [of hw, OF assms(1)] by blast
  show "case setup_spi0 hw MSmode bitRate numBits IRQmode s of (ret, s') \<Rightarrow>
            last (writes_of SPI0_SPCR (since s s')) = ucast ret \<and>
            regs s' SPI0_SPCR = ucast ret \<and>
            bit ret SPCR_SPE \<and> bit ret SPCR_MSTR = MSmode"
    using control_bits [OF zero(4), of MSmode] zero(2,3)
    by (subst zero(1)) simp
next
  obtain irq :: "8 word" where one:
    "setup_spi1 hw MSmode bitRate numBits IRQmode s =
      (irq OR (if MSmode then 0x48 else 0x40),
       (snd (setup_spi1 hw MSmode bitRate numBits IRQmode s)))"
    "regs (snd (setup_spi1 hw MSmode bitRate numBits IRQmode s)) SPI1_SPCR =
        ucast (irq OR (if MSmode then 0x48 else 0x40))"
    "last (writes_of SPI1_SPCR (since s (snd (setup_spi1 hw MSmode bitRate numBits IRQmode s)))) =
        ucast (irq OR (if MSmode then 0x48 else 0x40))"
    "\<not> bit irq SPCR_MSTR"
    using spi1_control [of hw, OF assms(2)] by blast
  show "case setup_spi1 hw MSmode bitRate numBits IRQmode s of (ret, s') \<Rightarrow>
            last (writes_of SPI1_SPCR (since s s')) = ucast ret \<and>
            regs s' SPI1_SPCR = ucast ret \<and>
            bit ret SPCR_SPE \<and> bit ret SPCR_MSTR = MSmode"
    using control_bits [OF one(4), of MSmode] one(2,3)
    by (subst one(1)) simp
next
  show SPI_MASTER and "\<not> SPI_SLAVE"
    by (simp_all add: SPI_MASTER_def SPI_SLAVE_def)
next
  from assms(3) obtain k where "wait_serial ready 0 = Some k"
    using wait_serial_ready [of ready 0 n] by auto
  then have "setup_sketch ready hw s = Some (setup_peripherals hw (setup_interrupts s))"
    by (simp add: setup_sketch_def Let_def)
  with peripherals_spi [of hw, OF assms(1,2)]
  show "\<exists>s'. setup_sketch ready hw s = Some s' \<and>
            bit (regs s' SPI1_SPCR) SPCR_SPE \<and> bit (regs s' SPI1_SPCR) SPCR_MSTR \<and>
            bit (regs s' SPI0_SPCR) SPCR_SPE \<and> \<not> bit (regs s' SPI0_SPCR) SPCR_MSTR"
    by simp
qed

lemma slave_at_power_on:
  "fst (setup_spi0 quiet SPI_SLAVE SPI_BR_8M0Hz SPI_BITS_32 SPI_POLL power_on) = 0x40"
  by (simp add: setup_spi0_def prims Let_def bus_read_def quiet_def power_on_def
      SPI_SLAVE_def SPI_POLL_def SPI_BITS_32_def)

lemma master_at_power_on:
  "fst (setup_spi1 quiet SPI_MASTER SPI_BR_8M0Hz SPI_BITS_32 SPI_IRQEN power_on) = 0xF8"
  by (simp add: setup_spi1_def prims Let_def bus_read_def quiet_def power_on_def
      SPI_MASTER_def SPI_IRQEN_def SPI_BITS_32_def SPCR_SPTIE_def SPCR_SPRIE_def SPCR_SPEIE_def)

theorem setup_spi_master_and_slave_witness:
  "(\<forall>t. quiet t SPI0_SPCR = None) \<and> (\<forall>t. quiet t SPI1_SPCR = None) \<and> (\<lambda>n. True) (0 :: nat) \<and>
   fst (setup_spi0 quiet SPI_SLAVE SPI_BR_8M0Hz SPI_BITS_32 SPI_POLL power_on) = 0x40 \<and>
   regs (snd (setup_spi0 quiet SPI_SLAVE SPI_BR_8M0Hz SPI_BITS_32 SPI_POLL power_on)) SPI0_SPCR = 0x40 \<and>
   fst (setup_spi1 quiet SPI_MASTER SPI_BR_8M0Hz SPI_BITS_32 SPI_IRQEN power_on) = 0xF8 \<and>
   regs (snd (setup_spi1 quiet SPI_MASTER SPI_BR_8M0Hz SPI_BITS_32 SPI_IRQEN power_on)) SPI1_SPCR = 0xF8 \<and>
   (\<exists>s'. setup_sketch (\<lambda>n. True) quiet power_on = Some s' \<and>
      bit (regs s' SPI1_SPCR) SPCR_MSTR \<and> \<not> bit (regs s' SPI0_SPCR) SPCR_MSTR)"
proof -
  have q: "\<And>t. quiet t SPI0_SPCR = None" "\<And>t. quiet t SPI1_SPCR = None"
    by (simp_all add: quiet_def)
  have r: "(\<lambda>n. True) (0 :: nat)"
    by simp
  note slave = setup_spi_master_and_slave [where hw = quiet and ready = "\<lambda>n. True" and n = 0
      and MSmode = SPI_SLAVE and bitRate = SPI_BR_8M0Hz and numBits = SPI_BITS_32
      and IRQmode = SPI_POLL and s = power_on, OF q r]
  note master = setup_spi_master_and_slave [where hw = quiet and ready = "\<lambda>n. True" and n = 0
      and MSmode = SPI_MASTER and bitRate = SPI_BR_8M0Hz and numBits = SPI_BITS_32
      and IRQmode = SPI_IRQEN and s = power_on, OF q r]
  from slave have "case setup_spi0 quiet SPI_SLAVE SPI_BR_8M0Hz SPI_BITS_32 SPI_POLL power_on of
      (ret, s') \<Rightarrow> last (writes_of SPI0_SPCR (since power_on s')) = ucast ret \<and>
        regs s' SPI0_SPCR = ucast ret \<and> bit ret SPCR_SPE \<and> bit ret SPCR_MSTR = SPI_SLAVE"
    by (rule conjunct1)
  then have "regs (snd (setup_spi0 quiet SPI_SLAVE SPI_BR_8M0Hz SPI_BITS_32 SPI_POLL power_on))
      SPI0_SPCR = ucast (fst (setup_spi0 quiet SPI_SLAVE SPI_BR_8M0Hz SPI_BITS_32 SPI_POLL power_on))"
    by (simp add: split_def)
  then have "regs (snd (setup_spi0 quiet SPI_SLAVE SPI_BR_8M0Hz SPI_BITS_32 SPI_POLL power_on))
      SPI0_SPCR = 0x40"
    by (simp add: slave_at_power_on)
  moreover from master have "case setup_spi1 quiet SPI_MASTER SPI_BR_8M0Hz SPI_BITS_32 SPI_IRQEN
      power_on of
      (ret, s') \<Rightarrow> last (writes_of SPI1_SPCR (since power_on s')) = ucast ret \<and>
        regs s' SPI1_SPCR = ucast ret \<and> bit ret SPCR_SPE \<and> bit ret SPCR_MSTR = SPI_MASTER"
    by (rule conjunct2 [THEN conjunct1])
  then have "regs (snd (setup_spi1 quiet SPI_MASTER SPI_BR_8M0Hz SPI_BITS_32 SPI_IRQEN power_on))
      SPI1_SPCR = ucast (fst (setup_spi1 quiet SPI_MASTER SPI_BR_8M0Hz SPI_BITS_32 SPI_IRQEN power_on))"
    by (simp add: split_def)
  then have "regs (snd (setup_spi1 quiet SPI_MASTER SPI_BR_8M0Hz SPI_BITS_32 SPI_IRQEN power_on))
      SPI1_SPCR = 0xF8"
    by (simp add: master_at_power_on)
  moreover from slave have "\<exists>s'. setup_sketch (\<lambda>n. True) quiet power_on = Some s' \<and>
      bit (regs s' SPI1_SPCR) SPCR_MSTR \<and> \<not> bit (regs s' SPI0_SPCR) SPCR_MSTR"
    by blast
  ultimately show ?thesis
    using q by (simp add: slave_at_power_on master_at_power_on)
qed

end
